theory Spec2Isabelle
  imports Main "HOL-Library.Word" "HOL-Library.Monad_Syntax"
begin

unbundle bit_operations_syntax

section \<open>The ION allocator core (drivers/gpu/ion/ion.c): data model\<close>

text \<open>
  Kernel objects live at addresses. A pointer-valued C expression is \<open>NULL\<close>, the address
  of an object (\<open>PTR a\<close>), or a pointer whose bits are the integer \<open>r\<close> rather than an
  object address (\<open>Raw r\<close>); \<open>ERR_PTR (- e)\<close> is of the last kind and \<open>IS_ERR\<close>
  recognises the errno range.
\<close>

type_synonym addr = nat

datatype cptr = NULL | Raw int | PTR addr

definition MAX_ERRNO :: int where "MAX_ERRNO = 4095"
definition ENOMEM :: int where "ENOMEM = 12"
definition ENODEV :: int where "ENODEV = 19"
definition EINVAL :: int where "EINVAL = 22"
definition EBADF :: int where "EBADF = 9"

definition ERR_PTR :: "int \<Rightarrow> cptr" where
  "ERR_PTR r = (if r = 0 then NULL else Raw r)"

fun IS_ERR :: "cptr \<Rightarrow> bool" where
  "IS_ERR (Raw r) = (- MAX_ERRNO \<le> r \<and> r < 0)"
| "IS_ERR NULL = False"
| "IS_ERR (PTR a) = False"

definition IS_ERR_OR_NULL :: "cptr \<Rightarrow> bool" where
  "IS_ERR_OR_NULL p = (p = NULL \<or> IS_ERR p)"

fun PTR_ERR :: "cptr \<Rightarrow> int" where
  "PTR_ERR NULL = 0"
| "PTR_ERR (Raw r) = r"
| "PTR_ERR (PTR a) = int a"

text \<open>
  The structures. \<open>struct ion_heap\<close> and \<open>struct ion_buffer\<close> are declared in
  ion_priv.h; the fields below are the ones ion.c reads and writes. The counters
  (the \<open>atomic_t\<close> of a \<open>kref\<close>, \<open>handle_count\<close>, the buffer's \<open>kmap_cnt\<close>, the
  heap's \<open>used\<close>) are C \<open>int\<close>s: integers in \<open>[-2^31, 2^31)\<close>, and \<open>int32\<close> is the
  value such a counter takes when the arithmetic result is \<open>i\<close> (two's complement
  wrap-around; the kernel is built with \<open>-fno-strict-overflow\<close>). The handle's
  \<open>kmap_cnt\<close> is the \<open>unsigned int\<close> ion.c declares, a 32-bit word.
  A function pointer of \<open>heap->ops\<close> that ion.c tests against NULL is a boolean.
\<close>

definition int32 :: "int \<Rightarrow> int" where
  "int32 i = (i + 2 ^ 31) mod 2 ^ 32 - 2 ^ 31"

record ion_heap =
  heap_id :: nat
  heap_flags :: nat
  heap_free_list :: "addr list"
  heap_used :: int
  heap_has_phys :: bool
  heap_has_map_kernel :: bool
  heap_has_lmk_shrink_info :: bool

record ion_buffer =
  b_ref :: int
  b_heap :: addr
  b_flags :: nat
  b_size :: nat
  b_kmap_cnt :: int
  b_vaddr :: cptr
  b_sg_table :: cptr
  b_pages :: bool
  b_handle_count :: int
  b_pid :: int

record ion_handle =
  h_ref :: int
  h_client :: addr
  h_buffer :: addr
  h_linked :: bool
  h_kmap_cnt :: "32 word"

record task_struct =
  t_pid :: int
  t_oom_score_adj :: int

record ion_client =
  c_handles :: "addr list"
  c_task :: "task_struct option"
  c_pid :: int
  c_deathpending :: int
  c_timeout :: nat
  c_ref :: int

text \<open>
  A \<open>struct dma_buf\<close> of the kernel's dma-buf layer: the exporter's private pointer,
  whether its \<open>ops\<close> is ion's \<open>dma_buf_ops\<close>, and the reference count of its file,
  which is the file system's and is counted here without a bound.
\<close>

record dma_buf =
  d_priv :: addr
  d_ops_ion :: bool
  d_file_count :: int

text \<open>What ion.c asks of its collaborators, in call order: heap operations, wake-ups,
  warnings and signals.\<close>

datatype event =
    Heap_allocate addr addr nat nat nat
  | Heap_free addr
  | Heap_map_dma addr addr
  | Heap_unmap_dma addr addr
  | Heap_map_kernel addr addr
  | Heap_unmap_kernel addr addr
  | Heap_phys addr addr
  | Vfree addr
  | Wake_up addr
  | Warn string
  | Send_sigkill int

text \<open>
  The device is the singleton \<open>struct ion_device\<close>: its rb-trees are the in-order lists
  of the addresses they hold, its heap plist the list of heap addresses in traversal
  order. Memory is typed and total; \<open>live_*\<close> are the allocated objects.
\<close>

record ion_state =
  heap_mem :: "addr \<Rightarrow> ion_heap"
  buffer_mem :: "addr \<Rightarrow> ion_buffer"
  handle_mem :: "addr \<Rightarrow> ion_handle"
  client_mem :: "addr \<Rightarrow> ion_client"
  dmabuf_mem :: "addr \<Rightarrow> dma_buf"
  live_buffers :: "addr set"
  live_handles :: "addr set"
  live_clients :: "addr set"
  live_dmabufs :: "addr set"
  fd_table :: "int \<Rightarrow> addr option"
  dev_buffers :: "addr list"
  dev_heaps :: "addr list"
  dev_clients :: "addr list"
  oom_kill_count :: nat
  jiffies :: nat
  trace :: "event list"

text \<open>
  The parts of the kernel that ion.c uses and that are not in ion.c: the build
  configuration, the constants and macros of the headers, the allocators, the heap
  back ends behind \<open>heap->ops\<close>, and the dma-buf layer. Each oracle sees the whole
  state, the trace included, so a back end may answer by its history.
\<close>

record platform =
  CONFIG_ION_BCM :: bool
  CONFIG_ION_OOM_KILLER :: bool
  ION_FLAG_CACHED :: nat
  ION_FLAG_CACHED_NEEDS_SYNC :: nat
  ION_HEAP_FLAG_DEFER_FREE :: nat
  PAGE_SIZE :: nat
  PAGE_ALIGN :: "nat \<Rightarrow> nat"
  ION_OOM_TIMEOUT_JIFFIES :: nat
  time_before_eq :: "nat \<Rightarrow> nat \<Rightarrow> bool"
  kzalloc :: "ion_state \<Rightarrow> addr option"
  vmalloc :: "ion_state \<Rightarrow> nat \<Rightarrow> bool"
  ops_allocate :: "ion_state \<Rightarrow> addr \<Rightarrow> addr \<Rightarrow> nat \<Rightarrow> nat \<Rightarrow> nat \<Rightarrow> int"
  ops_map_dma :: "ion_state \<Rightarrow> addr \<Rightarrow> addr \<Rightarrow> cptr"
  ops_map_kernel :: "ion_state \<Rightarrow> addr \<Rightarrow> addr \<Rightarrow> cptr"
  ops_phys :: "ion_state \<Rightarrow> addr \<Rightarrow> addr \<Rightarrow> int"
  ops_lmk_shrink_info :: "ion_state \<Rightarrow> addr \<Rightarrow> int \<times> int"
  dma_buf_export :: "ion_state \<Rightarrow> cptr"
  dma_buf_fd :: "ion_state \<Rightarrow> int"
  current_task :: "ion_state \<Rightarrow> task_struct"
  current_is_kthread :: "ion_state \<Rightarrow> bool"
  fatal_signal_pending :: "ion_state \<Rightarrow> bool"
  msleep :: "ion_state \<Rightarrow> ion_state"

subsection \<open>Memory and trace updates\<close>

definition emit :: "event \<Rightarrow> ion_state \<Rightarrow> ion_state" where
  "emit e s = s\<lparr>trace := trace s @ [e]\<rparr>"

definition upd_buffer :: "addr \<Rightarrow> (ion_buffer \<Rightarrow> ion_buffer) \<Rightarrow> ion_state \<Rightarrow> ion_state" where
  "upd_buffer a f s = s\<lparr>buffer_mem := (buffer_mem s)(a := f (buffer_mem s a))\<rparr>"

definition upd_handle :: "addr \<Rightarrow> (ion_handle \<Rightarrow> ion_handle) \<Rightarrow> ion_state \<Rightarrow> ion_state" where
  "upd_handle a f s = s\<lparr>handle_mem := (handle_mem s)(a := f (handle_mem s a))\<rparr>"

definition upd_heap :: "addr \<Rightarrow> (ion_heap \<Rightarrow> ion_heap) \<Rightarrow> ion_state \<Rightarrow> ion_state" where
  "upd_heap a f s = s\<lparr>heap_mem := (heap_mem s)(a := f (heap_mem s a))\<rparr>"

definition upd_client :: "addr \<Rightarrow> (ion_client \<Rightarrow> ion_client) \<Rightarrow> ion_state \<Rightarrow> ion_state" where
  "upd_client a f s = s\<lparr>client_mem := (client_mem s)(a := f (client_mem s a))\<rparr>"

definition upd_dmabuf :: "addr \<Rightarrow> (dma_buf \<Rightarrow> dma_buf) \<Rightarrow> ion_state \<Rightarrow> ion_state" where
  "upd_dmabuf a f s = s\<lparr>dmabuf_mem := (dmabuf_mem s)(a := f (dmabuf_mem s a))\<rparr>"

text \<open>\<open>kzalloc\<close> hands out zeroed memory.\<close>

definition zero_buffer :: ion_buffer where
  "zero_buffer = \<lparr>b_ref = 0, b_heap = 0, b_flags = 0, b_size = 0, b_kmap_cnt = 0,
     b_vaddr = NULL, b_sg_table = NULL, b_pages = False, b_handle_count = 0, b_pid = 0\<rparr>"

definition zero_handle :: ion_handle where
  "zero_handle = \<lparr>h_ref = 0, h_client = 0, h_buffer = 0, h_linked = False, h_kmap_cnt = 0\<rparr>"

definition zero_client :: ion_client where
  "zero_client = \<lparr>c_handles = [], c_task = None, c_pid = 0, c_deathpending = 0,
     c_timeout = 0, c_ref = 0\<rparr>"

definition kfree_buffer :: "addr \<Rightarrow> ion_state \<Rightarrow> ion_state" where
  "kfree_buffer b s = s\<lparr>live_buffers := live_buffers s - {b}\<rparr>"

definition kfree_handle :: "addr \<Rightarrow> ion_state \<Rightarrow> ion_state" where
  "kfree_handle h s = s\<lparr>live_handles := live_handles s - {h}\<rparr>"

definition kfree_client :: "addr \<Rightarrow> ion_state \<Rightarrow> ion_state" where
  "kfree_client c s = s\<lparr>live_clients := live_clients s - {c}\<rparr>"

section \<open>Buffers\<close>

definition ion_buffer_fault_user_mappings :: "platform \<Rightarrow> ion_buffer \<Rightarrow> bool" where
  "ion_buffer_fault_user_mappings P buffer =
     (b_flags buffer AND ION_FLAG_CACHED P \<noteq> 0 \<and>
      \<not> (b_flags buffer AND ION_FLAG_CACHED_NEEDS_SYNC P \<noteq> 0))"

definition ion_buffer_cached :: "platform \<Rightarrow> ion_buffer \<Rightarrow> bool" where
  "ion_buffer_cached P buffer = (b_flags buffer AND ION_FLAG_CACHED P \<noteq> 0)"

text \<open>\<open>ion_buffer_add\<close>: the descent by address ends in \<open>BUG()\<close> when the buffer is
  already in the tree; \<open>None\<close> is a call that does not return.\<close>

definition ion_buffer_add :: "addr \<Rightarrow> ion_state \<Rightarrow> ion_state option" where
  "ion_buffer_add buffer s =
     (if buffer \<in> set (dev_buffers s) then None
      else Some (s\<lparr>dev_buffers := insort buffer (dev_buffers s)\<rparr>))"

definition underscore_ion_buffer_destroy :: "platform \<Rightarrow> addr \<Rightarrow> ion_state \<Rightarrow> ion_state" where
  "underscore_ion_buffer_destroy P buffer s =
     (let heap = b_heap (buffer_mem s buffer);
          s1 = (if b_kmap_cnt (buffer_mem s buffer) > 0
                then emit (Heap_unmap_kernel heap buffer) (emit (Warn ''buffer->kmap_cnt > 0'') s)
                else s);
          s2 = emit (Heap_unmap_dma heap buffer) s1;
          s3 = emit (Heap_free buffer) s2;
          s4 = (if CONFIG_ION_BCM P
                then upd_heap heap (\<lambda>h. h\<lparr>heap_used := int32 (heap_used h - int (b_size (buffer_mem s3 buffer)))\<rparr>) s3
                else s3);
          s5 = (if b_pages (buffer_mem s4 buffer) then emit (Vfree buffer) s4 else s4)
      in kfree_buffer buffer s5)"

definition ion_buffer_destroy :: "platform \<Rightarrow> addr \<Rightarrow> ion_state \<Rightarrow> ion_state" where
  "ion_buffer_destroy P buffer s =
     (let heap = b_heap (buffer_mem s buffer);
          s1 = s\<lparr>dev_buffers := remove1 buffer (dev_buffers s)\<rparr>
      in if heap_flags (heap_mem s1 heap) AND ION_HEAP_FLAG_DEFER_FREE P \<noteq> 0
         then emit (Wake_up heap)
                (upd_heap heap (\<lambda>h. h\<lparr>heap_free_list := buffer # heap_free_list h\<rparr>) s1)
         else underscore_ion_buffer_destroy P buffer s1)"

definition ion_buffer_get :: "addr \<Rightarrow> ion_state \<Rightarrow> ion_state" where
  "ion_buffer_get buffer s = upd_buffer buffer (\<lambda>b. b\<lparr>b_ref := int32 (b_ref b + 1)\<rparr>) s"

text \<open>\<open>kref_put\<close>: decrement, and release when the count is now zero.\<close>

definition ion_buffer_put :: "platform \<Rightarrow> addr \<Rightarrow> ion_state \<Rightarrow> ion_state" where
  "ion_buffer_put P buffer s =
     (let s1 = upd_buffer buffer (\<lambda>b. b\<lparr>b_ref := int32 (b_ref b - 1)\<rparr>) s
      in if b_ref (buffer_mem s1 buffer) = 0 then ion_buffer_destroy P buffer s1 else s1)"

definition ion_buffer_add_to_handle :: "addr \<Rightarrow> ion_state \<Rightarrow> ion_state" where
  "ion_buffer_add_to_handle buffer s =
     upd_buffer buffer (\<lambda>b. b\<lparr>b_handle_count := int32 (b_handle_count b + 1)\<rparr>) s"

definition ion_buffer_remove_from_handle :: "platform \<Rightarrow> addr \<Rightarrow> ion_state \<Rightarrow> ion_state" where
  "ion_buffer_remove_from_handle P buffer s =
     (let s1 = (if b_handle_count (buffer_mem s buffer) \<le> 0
                then emit (Warn ''buffer->handle_count <= 0'') s else s)
      in if b_handle_count (buffer_mem s1 buffer) > 0
         then (let s2 = upd_buffer buffer (\<lambda>b. b\<lparr>b_handle_count := int32 (b_handle_count b - 1)\<rparr>) s1
               in if b_handle_count (buffer_mem s2 buffer) = 0
                  then upd_buffer buffer (\<lambda>b. b\<lparr>b_pid := t_pid (current_task P s2)\<rparr>) s2
                  else s2)
         else s1)"

subsection \<open>The deferred-free list\<close>

text \<open>\<open>list_for_each_entry_safe\<close> over the free list: unlink the entry, destroy it.\<close>

fun drain_entries :: "platform \<Rightarrow> addr \<Rightarrow> addr list \<Rightarrow> ion_state \<Rightarrow> ion_state" where
  "drain_entries P heap [] s = s"
| "drain_entries P heap (buffer # rest) s =
     drain_entries P heap rest
       (underscore_ion_buffer_destroy P buffer
          (upd_heap heap (\<lambda>h. h\<lparr>heap_free_list := remove1 buffer (heap_free_list h)\<rparr>) s))"

definition ion_heap_free_list_is_empty :: "addr \<Rightarrow> ion_state \<Rightarrow> bool" where
  "ion_heap_free_list_is_empty heap s = (heap_free_list (heap_mem s heap) = [])"

text \<open>\<open>ion_heap_drain_freelist\<close> returns whether it drained; \<open>None\<close> is the
  \<open>BUG_ON\<close> of a list still populated after the loop.\<close>

definition ion_heap_drain_freelist :: "platform \<Rightarrow> addr \<Rightarrow> ion_state \<Rightarrow> (bool \<times> ion_state) option" where
  "ion_heap_drain_freelist P heap s =
     (if ion_heap_free_list_is_empty heap s then Some (False, s)
      else (let s1 = drain_entries P heap (heap_free_list (heap_mem s heap)) s
            in if heap_free_list (heap_mem s1 heap) \<noteq> [] then None
               else Some (True, s1)))"

text \<open>One turn of the worker \<open>ion_heap_deferred_free\<close>: asleep on an empty list,
  otherwise it unlinks the first entry and destroys it.\<close>

definition ion_heap_deferred_free_step :: "platform \<Rightarrow> addr \<Rightarrow> ion_state \<Rightarrow> ion_state" where
  "ion_heap_deferred_free_step P heap s =
     (case heap_free_list (heap_mem s heap) of
        [] \<Rightarrow> s
      | buffer # rest \<Rightarrow>
          underscore_ion_buffer_destroy P buffer
            (upd_heap heap (\<lambda>h. h\<lparr>heap_free_list := rest\<rparr>) s))"


subsection \<open>Buffer creation\<close>

text \<open>The exits of \<open>ion_buffer_create\<close>, by label.\<close>

definition ion_buffer_create_err2 :: "addr \<Rightarrow> int \<Rightarrow> ion_state \<Rightarrow> cptr \<times> ion_state" where
  "ion_buffer_create_err2 buffer ret s = (ERR_PTR ret, kfree_buffer buffer s)"

definition ion_buffer_create_err1 :: "addr \<Rightarrow> int \<Rightarrow> ion_state \<Rightarrow> cptr \<times> ion_state" where
  "ion_buffer_create_err1 buffer ret s =
     ion_buffer_create_err2 buffer ret
       (if b_pages (buffer_mem s buffer) then emit (Vfree buffer) s else s)"

definition ion_buffer_create_err :: "addr \<Rightarrow> addr \<Rightarrow> int \<Rightarrow> ion_state \<Rightarrow> cptr \<times> ion_state" where
  "ion_buffer_create_err heap buffer ret s =
     ion_buffer_create_err1 buffer ret
       (emit (Heap_free buffer) (emit (Heap_unmap_dma heap buffer) s))"

text \<open>From \<open>buffer->dev = dev\<close> on: the heap has allocated and \<open>ret\<close> is its status.\<close>

definition ion_buffer_create_map :: "platform \<Rightarrow> addr \<Rightarrow> addr \<Rightarrow> nat \<Rightarrow> int \<Rightarrow> ion_state \<Rightarrow> (cptr \<times> ion_state) option" where
  "ion_buffer_create_map P heap buffer len ret s =
     (let s1 = upd_buffer buffer (\<lambda>b. b\<lparr>b_size := len\<rparr>) s;
          table = ops_map_dma P s1 heap buffer;
          s2 = emit (Heap_map_dma heap buffer) s1
      in if IS_ERR_OR_NULL table
         then Some (ERR_PTR (PTR_ERR table), kfree_buffer buffer (emit (Heap_free buffer) s2))
         else
           (let s3 = upd_buffer buffer (\<lambda>b. b\<lparr>b_sg_table := table\<rparr>) s2
            in if ion_buffer_fault_user_mappings P (buffer_mem s3 buffer)
               then
                 (let num_pages = PAGE_ALIGN P (b_size (buffer_mem s3 buffer)) div PAGE_SIZE P
                  in if \<not> vmalloc P s3 num_pages
                     then Some (ion_buffer_create_err1 buffer (- ENOMEM) s3)
                     else
                       (let s4 = upd_buffer buffer (\<lambda>b. b\<lparr>b_pages := True\<rparr>) s3
                        in if ret \<noteq> 0 then Some (ion_buffer_create_err heap buffer ret s4)
                           else map_option (Pair (PTR buffer)) (ion_buffer_add buffer s4)))
               else map_option (Pair (PTR buffer)) (ion_buffer_add buffer s3)))"

text \<open>The record \<open>kzalloc\<close> returned, with \<open>heap\<close>, \<open>flags\<close> and the reference
  count of \<open>kref_init\<close> set.\<close>

definition ion_buffer_init :: "addr \<Rightarrow> nat \<Rightarrow> addr \<Rightarrow> ion_state \<Rightarrow> ion_state" where
  "ion_buffer_init heap flags buffer s =
     s\<lparr>buffer_mem := (buffer_mem s)
          (buffer := zero_buffer\<lparr>b_heap := heap, b_flags := flags, b_ref := 1\<rparr>),
       live_buffers := insert buffer (live_buffers s)\<rparr>"

definition ion_buffer_create :: "platform \<Rightarrow> addr \<Rightarrow> nat \<Rightarrow> nat \<Rightarrow> nat \<Rightarrow> ion_state \<Rightarrow> (cptr \<times> ion_state) option" where
  "ion_buffer_create P heap len align flags s =
     (case kzalloc P s of
        None \<Rightarrow> Some (ERR_PTR (- ENOMEM), s)
      | Some buffer \<Rightarrow>
          (let s1 = ion_buffer_init heap flags buffer s;
               ret = ops_allocate P s1 heap buffer len align flags;
               s2 = emit (Heap_allocate heap buffer len align flags) s1
           in if ret \<noteq> 0
              then
                (if \<not> (heap_flags (heap_mem s2 heap) AND ION_HEAP_FLAG_DEFER_FREE P \<noteq> 0)
                 then Some (ion_buffer_create_err2 buffer ret s2)
                 else
                   (case ion_heap_drain_freelist P heap s2 of
                      None \<Rightarrow> None
                    | Some (drained, s3) \<Rightarrow>
                        (let ret = ops_allocate P s3 heap buffer len align flags;
                             s4 = emit (Heap_allocate heap buffer len align flags) s3
                         in if ret \<noteq> 0 then Some (ion_buffer_create_err2 buffer ret s4)
                            else ion_buffer_create_map P heap buffer len ret s4)))
              else ion_buffer_create_map P heap buffer len ret s2))"

section \<open>Handles\<close>

definition ion_handle_create :: "platform \<Rightarrow> addr \<Rightarrow> addr \<Rightarrow> ion_state \<Rightarrow> cptr \<times> ion_state" where
  "ion_handle_create P client buffer s =
     (case kzalloc P s of
        None \<Rightarrow> (ERR_PTR (- ENOMEM), s)
      | Some handle \<Rightarrow>
          (let s1 = s\<lparr>handle_mem := (handle_mem s)
                        (handle := zero_handle\<lparr>h_ref := 1, h_linked := False, h_client := client\<rparr>),
                      live_handles := insert handle (live_handles s)\<rparr>;
               s2 = ion_buffer_get buffer s1;
               s3 = ion_buffer_add_to_handle buffer s2;
               s4 = upd_handle handle (\<lambda>h. h\<lparr>h_buffer := buffer\<rparr>) s3
           in (PTR handle, s4)))"

subsection \<open>Kernel mappings\<close>

definition ion_buffer_kmap_get :: "platform \<Rightarrow> addr \<Rightarrow> ion_state \<Rightarrow> cptr \<times> ion_state" where
  "ion_buffer_kmap_get P buffer s =
     (if b_kmap_cnt (buffer_mem s buffer) \<noteq> 0
      then (b_vaddr (buffer_mem s buffer),
            upd_buffer buffer (\<lambda>b. b\<lparr>b_kmap_cnt := int32 (b_kmap_cnt b + 1)\<rparr>) s)
      else
        (let heap = b_heap (buffer_mem s buffer);
             vaddr = ops_map_kernel P s heap buffer;
             s1 = emit (Heap_map_kernel heap buffer) s
         in if IS_ERR_OR_NULL vaddr then (vaddr, s1)
            else (vaddr, upd_buffer buffer
                           (\<lambda>b. b\<lparr>b_vaddr := vaddr, b_kmap_cnt := int32 (b_kmap_cnt b + 1)\<rparr>) s1)))"

definition ion_handle_kmap_get :: "platform \<Rightarrow> addr \<Rightarrow> ion_state \<Rightarrow> cptr \<times> ion_state" where
  "ion_handle_kmap_get P handle s =
     (let buffer = h_buffer (handle_mem s handle)
      in if h_kmap_cnt (handle_mem s handle) \<noteq> 0
         then (b_vaddr (buffer_mem s buffer),
               upd_handle handle (\<lambda>h. h\<lparr>h_kmap_cnt := h_kmap_cnt h + 1\<rparr>) s)
         else
           (case ion_buffer_kmap_get P buffer s of
              (vaddr, s1) \<Rightarrow>
                if IS_ERR_OR_NULL vaddr then (vaddr, s1)
                else (vaddr, upd_handle handle (\<lambda>h. h\<lparr>h_kmap_cnt := h_kmap_cnt h + 1\<rparr>) s1)))"

definition ion_buffer_kmap_put :: "addr \<Rightarrow> ion_state \<Rightarrow> ion_state" where
  "ion_buffer_kmap_put buffer s =
     (let s1 = upd_buffer buffer (\<lambda>b. b\<lparr>b_kmap_cnt := int32 (b_kmap_cnt b - 1)\<rparr>) s
      in if b_kmap_cnt (buffer_mem s1 buffer) = 0
         then upd_buffer buffer (\<lambda>b. b\<lparr>b_vaddr := NULL\<rparr>)
                (emit (Heap_unmap_kernel (b_heap (buffer_mem s1 buffer)) buffer) s1)
         else s1)"

definition ion_handle_kmap_put :: "addr \<Rightarrow> ion_state \<Rightarrow> ion_state" where
  "ion_handle_kmap_put handle s =
     (let buffer = h_buffer (handle_mem s handle);
          s1 = upd_handle handle (\<lambda>h. h\<lparr>h_kmap_cnt := h_kmap_cnt h - 1\<rparr>) s
      in if h_kmap_cnt (handle_mem s1 handle) = 0 then ion_buffer_kmap_put buffer s1 else s1)"


subsection \<open>Handle destruction\<close>

text \<open>The loop \<open>while (handle->kmap_cnt) ion_handle_kmap_put(handle)\<close>.\<close>

function ion_handle_kmap_put_all :: "addr \<Rightarrow> ion_state \<Rightarrow> ion_state" where
  "ion_handle_kmap_put_all handle s =
     (if h_kmap_cnt (handle_mem s handle) \<noteq> 0
      then ion_handle_kmap_put_all handle (ion_handle_kmap_put handle s)
      else s)"
  by pat_completeness auto
termination
proof (relation "measure (\<lambda>(handle, s). unat (h_kmap_cnt (handle_mem s handle)))")
  show "wf (measure (\<lambda>(handle, s). unat (h_kmap_cnt (handle_mem s handle))))"
    by simp
next
  fix handle :: addr and s :: ion_state
  assume nz: "h_kmap_cnt (handle_mem s handle) \<noteq> 0"
  have "h_kmap_cnt (handle_mem (ion_handle_kmap_put handle s) handle)
          = h_kmap_cnt (handle_mem s handle) - 1"
    by (simp add: ion_handle_kmap_put_def ion_buffer_kmap_put_def upd_handle_def
        upd_buffer_def emit_def Let_def)
  moreover have "unat (h_kmap_cnt (handle_mem s handle) - 1) < unat (h_kmap_cnt (handle_mem s handle))"
    using nz by (simp add: unat_minus_one unat_gt_0)
  ultimately show "((handle, ion_handle_kmap_put handle s), (handle, s))
      \<in> measure (\<lambda>(handle, s). unat (h_kmap_cnt (handle_mem s handle)))"
    by simp
qed

declare ion_handle_kmap_put_all.simps [simp del]

definition ion_handle_destroy :: "platform \<Rightarrow> addr \<Rightarrow> ion_state \<Rightarrow> ion_state" where
  "ion_handle_destroy P handle s =
     (let client = h_client (handle_mem s handle);
          buffer = h_buffer (handle_mem s handle);
          s1 = ion_handle_kmap_put_all handle s;
          s2 = (if h_linked (handle_mem s1 handle)
                then upd_client client (\<lambda>c. c\<lparr>c_handles := remove1 handle (c_handles c)\<rparr>) s1
                else s1);
          s3 = ion_buffer_remove_from_handle P buffer s2;
          s4 = ion_buffer_put P buffer s3
      in kfree_handle handle s4)"

definition ion_handle_buffer :: "addr \<Rightarrow> ion_state \<Rightarrow> addr" where
  "ion_handle_buffer handle s = h_buffer (handle_mem s handle)"

definition ion_handle_get :: "addr \<Rightarrow> ion_state \<Rightarrow> ion_state" where
  "ion_handle_get handle s = upd_handle handle (\<lambda>h. h\<lparr>h_ref := int32 (h_ref h + 1)\<rparr>) s"

definition ion_handle_put :: "platform \<Rightarrow> addr \<Rightarrow> ion_state \<Rightarrow> ion_state" where
  "ion_handle_put P handle s =
     (let s1 = upd_handle handle (\<lambda>h. h\<lparr>h_ref := int32 (h_ref h - 1)\<rparr>) s
      in if h_ref (handle_mem s1 handle) = 0 then ion_handle_destroy P handle s1 else s1)"

text \<open>\<open>ion_handle_lookup\<close> walks the client's tree in order and returns the first handle
  on the buffer; \<open>ion_handle_validate\<close> searches the tree for the handle's address.\<close>

definition ion_handle_lookup :: "addr \<Rightarrow> addr \<Rightarrow> ion_state \<Rightarrow> cptr" where
  "ion_handle_lookup client buffer s =
     (case find (\<lambda>handle. h_buffer (handle_mem s handle) = buffer)
                (c_handles (client_mem s client)) of
        None \<Rightarrow> NULL
      | Some handle \<Rightarrow> PTR handle)"

definition ion_handle_validate :: "addr \<Rightarrow> addr \<Rightarrow> ion_state \<Rightarrow> bool" where
  "ion_handle_validate client handle s = (handle \<in> set (c_handles (client_mem s client)))"

text \<open>\<open>ion_handle_add\<close>: on an address already in the tree the descent warns and does
  not advance, so the call never returns (\<open>None\<close>).\<close>

definition ion_handle_add :: "addr \<Rightarrow> addr \<Rightarrow> ion_state \<Rightarrow> ion_state option" where
  "ion_handle_add client handle s =
     (if handle \<in> set (c_handles (client_mem s client)) then None
      else Some (upd_handle handle (\<lambda>h. h\<lparr>h_linked := True\<rparr>)
                   (upd_client client (\<lambda>c. c\<lparr>c_handles := insort handle (c_handles c)\<rparr>) s)))"

section \<open>Usage accounting\<close>

text \<open>
  \<open>size_t\<close> sums wrap at the word size (32 bits on this ARM target), and the \<open>int\<close>
  \<open>handle_count\<close> is converted to \<open>size_t\<close> before the division. Dividing by zero is
  undefined in C: \<open>None\<close>.
\<close>

definition size_t_of_int :: "int \<Rightarrow> nat" where
  "size_t_of_int i = nat (i mod 2 ^ 32)"

definition int_of_size_t :: "nat \<Rightarrow> int" where
  "int_of_size_t n = (let m = int (n mod 2 ^ 32) in if m < 2 ^ 31 then m else m - 2 ^ 32)"

definition size_t_add :: "nat \<Rightarrow> nat \<Rightarrow> nat" where
  "size_t_add a b = (a + b) mod 2 ^ 32"

fun ion_debug_heap_total_loop ::
  "addr list \<Rightarrow> nat \<Rightarrow> ion_state \<Rightarrow> nat \<times> nat \<times> nat \<Rightarrow> (nat \<times> nat \<times> nat) option" where
  "ion_debug_heap_total_loop [] hid s acc = Some acc"
| "ion_debug_heap_total_loop (handle # rest) hid s (sz, shared, pss) =
     (let buffer = buffer_mem s (h_buffer (handle_mem s handle))
      in if heap_id (heap_mem s (b_heap buffer)) = hid
         then
           (if size_t_of_int (b_handle_count buffer) = 0 then None
            else ion_debug_heap_total_loop rest hid s
                   (size_t_add sz (b_size buffer),
                    (if b_handle_count buffer > 1 then size_t_add shared (b_size buffer) else shared),
                    size_t_add pss (b_size buffer div size_t_of_int (b_handle_count buffer))))
         else ion_debug_heap_total_loop rest hid s (sz, shared, pss))"

text \<open>\<open>ion_debug_heap_total\<close> returns \<open>(size, *shared, *pss)\<close>.\<close>

definition ion_debug_heap_total :: "addr \<Rightarrow> nat \<Rightarrow> ion_state \<Rightarrow> (nat \<times> nat \<times> nat) option" where
  "ion_debug_heap_total client hid s =
     ion_debug_heap_total_loop (c_handles (client_mem s client)) hid s (0, 0, 0)"

text \<open>The status dump prints, and computes every client's totals for every heap on the
  way; what it prints is not modelled, whether it gets through is.\<close>

definition ion_debug_print_per_heap :: "addr \<Rightarrow> ion_state \<Rightarrow> bool" where
  "ion_debug_print_per_heap heap s =
     list_all (\<lambda>client. ion_debug_heap_total client (heap_id (heap_mem s heap)) s \<noteq> None)
       (dev_clients s)"

definition ion_debug_print_heap_status :: "ion_state \<Rightarrow> bool" where
  "ion_debug_print_heap_status s = list_all (\<lambda>heap. ion_debug_print_per_heap heap s) (dev_heaps s)"


section \<open>The reclaim policy (CONFIG_ION_OOM_KILLER)\<close>

text \<open>The scan of \<open>ion_shrink\<close> either divides by zero in the accounting, returns
  \<open>-1\<close> on a pending death whose timeout has not passed, or goes on with the client,
  heap, size and oom score selected so far.\<close>

datatype shrink_scan = Trap | Pending | Selected "(addr \<times> addr \<times> int \<times> int) option"

fun ion_shrink_clients ::
  "platform \<Rightarrow> addr \<Rightarrow> addr list \<Rightarrow> int \<Rightarrow> ion_state \<Rightarrow> (addr \<times> addr \<times> int \<times> int) option \<Rightarrow> shrink_scan" where
  "ion_shrink_clients P heap [] min_oom_score_adj s sel = Selected sel"
| "ion_shrink_clients P heap (client # rest) min_oom_score_adj s sel =
     (case c_task (client_mem s client) of
        None \<Rightarrow> ion_shrink_clients P heap rest min_oom_score_adj s sel
      | Some p \<Rightarrow>
          if c_deathpending (client_mem s client) \<noteq> 0
          then (if time_before_eq P (jiffies s) (c_timeout (client_mem s client)) then Pending
                else ion_shrink_clients P heap rest min_oom_score_adj s sel)
          else if t_oom_score_adj p < min_oom_score_adj
          then ion_shrink_clients P heap rest min_oom_score_adj s sel
          else
            (case ion_debug_heap_total client (heap_id (heap_mem s heap)) s of
               None \<Rightarrow> Trap
             | Some (sz, shared, pss) \<Rightarrow>
                 if sz = 0 then ion_shrink_clients P heap rest min_oom_score_adj s sel
                 else
                   (case sel of
                      None \<Rightarrow>
                        ion_shrink_clients P heap rest min_oom_score_adj s
                          (Some (client, heap, int_of_size_t sz, t_oom_score_adj p))
                    | Some (selected_client, selected_heap, selected_size, selected_oom) \<Rightarrow>
                        if t_oom_score_adj p < selected_oom
                        then ion_shrink_clients P heap rest min_oom_score_adj s sel
                        else if t_oom_score_adj p = selected_oom \<and> sz \<le> size_t_of_int selected_size
                        then ion_shrink_clients P heap rest min_oom_score_adj s sel
                        else ion_shrink_clients P heap rest min_oom_score_adj s
                               (Some (client, heap, int_of_size_t sz, t_oom_score_adj p)))))"

fun ion_shrink_heaps ::
  "platform \<Rightarrow> addr list \<Rightarrow> 32 word \<Rightarrow> int \<Rightarrow> ion_state \<Rightarrow> (addr \<times> addr \<times> int \<times> int) option \<Rightarrow> shrink_scan" where
  "ion_shrink_heaps P [] heap_id_mask min_oom_score_adj s sel = Selected sel"
| "ion_shrink_heaps P (heap # rest) heap_id_mask min_oom_score_adj s sel =
     (if \<not> (push_bit (heap_id (heap_mem s heap)) 1 AND heap_id_mask \<noteq> 0)
      then ion_shrink_heaps P rest heap_id_mask min_oom_score_adj s sel
      else
        (case ion_shrink_clients P heap (dev_clients s) min_oom_score_adj s sel of
           Selected sel' \<Rightarrow> ion_shrink_heaps P rest heap_id_mask min_oom_score_adj s sel'
         | stopped \<Rightarrow> stopped))"

definition ion_shrink :: "platform \<Rightarrow> 32 word \<Rightarrow> int \<Rightarrow> int \<Rightarrow> ion_state \<Rightarrow> (int \<times> ion_state) option" where
  "ion_shrink P heap_id_mask min_oom_score_adj fail_size s =
     (case ion_shrink_heaps P (dev_heaps s) heap_id_mask min_oom_score_adj s None of
        Trap \<Rightarrow> None
      | Pending \<Rightarrow> Some (- 1, s)
      | Selected None \<Rightarrow> Some (0, s)
      | Selected (Some (selected_client, selected_heap, selected_size, selected_oom)) \<Rightarrow>
          (let s1 = (if fail_size \<noteq> 0 then s\<lparr>oom_kill_count := (oom_kill_count s + 1) mod 2 ^ 32\<rparr> else s);
               s2 = upd_client selected_client (\<lambda>c. c\<lparr>c_deathpending := 1\<rparr>) s1;
               s3 = emit (Send_sigkill (case c_task (client_mem s2 selected_client) of
                                          Some p \<Rightarrow> t_pid p | None \<Rightarrow> 0)) s2;
               s4 = upd_client selected_client
                      (\<lambda>c. c\<lparr>c_timeout := (jiffies s3 + ION_OOM_TIMEOUT_JIFFIES P) mod 2 ^ 32\<rparr>) s3
           in Some (selected_size, s4)))"

section \<open>The client interface\<close>

subsection \<open>Allocation\<close>

text \<open>The traversal \<open>plist_for_each_entry\<close> of \<open>ion_alloc\<close>; \<open>buffer\<close> and
  \<open>heap_used\<close> keep what the last eligible heap left in them.\<close>

fun ion_alloc_heaps ::
  "platform \<Rightarrow> addr list \<Rightarrow> nat \<Rightarrow> nat \<Rightarrow> 32 word \<Rightarrow> nat \<Rightarrow> cptr \<Rightarrow> addr option \<Rightarrow> ion_state
     \<Rightarrow> (cptr \<times> addr option \<times> ion_state) option" where
  "ion_alloc_heaps P [] len align heap_id_mask flags buffer heap_used' s =
     Some (buffer, heap_used', s)"
| "ion_alloc_heaps P (heap # rest) len align heap_id_mask flags buffer heap_used' s =
     (if \<not> (push_bit (heap_id (heap_mem s heap)) 1 AND heap_id_mask \<noteq> 0)
      then ion_alloc_heaps P rest len align heap_id_mask flags buffer heap_used' s
      else
        (case ion_buffer_create P heap len align flags s of
           None \<Rightarrow> None
         | Some (buffer', s') \<Rightarrow>
             if \<not> IS_ERR_OR_NULL buffer' then Some (buffer', Some heap, s')
             else ion_alloc_heaps P rest len align heap_id_mask flags buffer' (Some heap) s'))"

text \<open>The CONFIG_ION_BCM block after the traversal; it yields \<open>retry_flag\<close>.\<close>

definition ion_alloc_bcm ::
  "platform \<Rightarrow> nat \<Rightarrow> 32 word \<Rightarrow> cptr \<Rightarrow> addr option \<Rightarrow> ion_state \<Rightarrow> (bool \<times> ion_state) option" where
  "ion_alloc_bcm P len heap_id_mask buffer heap_used' s =
     (if \<not> CONFIG_ION_BCM P then Some (False, s)
      else if buffer = ERR_PTR (- ENOMEM)
      then
        (if CONFIG_ION_OOM_KILLER P
         then map_option (\<lambda>(r, s1). (r \<noteq> 0, s1)) (ion_shrink P heap_id_mask 0 (int_of_size_t len) s)
         else if ion_debug_print_heap_status s then Some (False, s) else None)
      else if \<not> IS_ERR_OR_NULL buffer
      then
        (case (buffer, heap_used') of
           (PTR b, Some hu) \<Rightarrow>
             (let s1 = upd_heap hu (\<lambda>h. h\<lparr>heap_used := int32 (heap_used h + int (b_size (buffer_mem s b)))\<rparr>) s
              in if CONFIG_ION_OOM_KILLER P \<and> heap_has_lmk_shrink_info (heap_mem s1 hu)
                 then
                   (case ops_lmk_shrink_info P s1 hu of
                      (lmk_needed, min_adj) \<Rightarrow>
                        if lmk_needed \<noteq> 0
                        then map_option (\<lambda>(r, s2). (False, s2))
                               (ion_shrink P (push_bit (heap_id (heap_mem s1 hu)) 1) min_adj 0 s1)
                        else Some (False, s1))
                 else Some (False, s1))
         | _ \<Rightarrow> None)
      else if ion_debug_print_heap_status s then Some (False, s) else None)"

text \<open>From \<open>if (buffer == NULL)\<close> to the end of \<open>ion_alloc\<close>.\<close>

definition ion_alloc_finish :: "platform \<Rightarrow> addr \<Rightarrow> cptr \<Rightarrow> ion_state \<Rightarrow> (cptr \<times> ion_state) option" where
  "ion_alloc_finish P client buffer s =
     (if buffer = NULL then Some (ERR_PTR (- ENODEV), s)
      else if IS_ERR buffer then Some (ERR_PTR (PTR_ERR buffer), s)
      else
        (case buffer of
           PTR b \<Rightarrow>
             (case ion_handle_create P client b s of
                (handle, s1) \<Rightarrow>
                  (let s2 = ion_buffer_put P b s1
                   in if \<not> IS_ERR handle
                      then (case handle of
                              PTR h \<Rightarrow> map_option (Pair handle) (ion_handle_add client h s2)
                            | _ \<Rightarrow> None)
                      else Some (handle, s2)))
         | _ \<Rightarrow> None))"

text \<open>One pass from the label \<open>retry\<close>; under CONFIG_ION_OOM_KILLER the pass may sleep
  and start over, for as long as the reclaim policy reports progress.\<close>

partial_function (option) ion_alloc_retry ::
  "platform \<Rightarrow> addr \<Rightarrow> nat \<Rightarrow> nat \<Rightarrow> 32 word \<Rightarrow> nat \<Rightarrow> cptr \<Rightarrow> addr option \<Rightarrow> ion_state
     \<Rightarrow> (cptr \<times> ion_state) option" where
  "ion_alloc_retry P client len align heap_id_mask flags buffer heap_used' s =
     (case ion_alloc_heaps P (dev_heaps s) len align heap_id_mask flags buffer heap_used' s of
        None \<Rightarrow> None
      | Some (buffer1, heap_used'', s1) \<Rightarrow>
          (case ion_alloc_bcm P len heap_id_mask buffer1 heap_used'' s1 of
             None \<Rightarrow> None
           | Some (retry_flag, s2) \<Rightarrow>
               if CONFIG_ION_OOM_KILLER P \<and> IS_ERR_OR_NULL buffer1
               then
                 (if \<not> fatal_signal_pending P s2 \<and> retry_flag
                  then ion_alloc_retry P client len align heap_id_mask flags buffer1 heap_used''
                         (msleep P s2)
                  else if ion_debug_print_heap_status s2 then ion_alloc_finish P client buffer1 s2
                  else None)
               else ion_alloc_finish P client buffer1 s2))"

declare ion_alloc_retry.simps [code]

definition ion_alloc ::
  "platform \<Rightarrow> addr \<Rightarrow> nat \<Rightarrow> nat \<Rightarrow> 32 word \<Rightarrow> nat \<Rightarrow> ion_state \<Rightarrow> (cptr \<times> ion_state) option" where
  "ion_alloc P client len align heap_id_mask flags s =
     (if len = 0 then Some (ERR_PTR (- EINVAL), emit (Warn ''!len'') s)
      else ion_alloc_retry P client (PAGE_ALIGN P len) align heap_id_mask flags NULL None s)"

subsection \<open>Free, physical address, kernel mapping, scatter table\<close>

text \<open>\<open>ion_free\<close>: \<open>None\<close> is the \<open>BUG_ON\<close> of a handle of another client.\<close>

definition ion_free :: "platform \<Rightarrow> addr \<Rightarrow> addr \<Rightarrow> ion_state \<Rightarrow> ion_state option" where
  "ion_free P client handle s =
     (if client \<noteq> h_client (handle_mem s handle) then None
      else if \<not> ion_handle_validate client handle s
      then Some (emit (Warn ''ion_free: invalid handle passed to free.'') s)
      else Some (ion_handle_put P handle s))"

definition ion_phys :: "platform \<Rightarrow> addr \<Rightarrow> addr \<Rightarrow> ion_state \<Rightarrow> int \<times> ion_state" where
  "ion_phys P client handle s =
     (if \<not> ion_handle_validate client handle s then (- EINVAL, s)
      else
        (let buffer = h_buffer (handle_mem s handle);
             heap = b_heap (buffer_mem s buffer)
         in if \<not> heap_has_phys (heap_mem s heap) then (- ENODEV, s)
            else (ops_phys P s heap buffer, emit (Heap_phys heap buffer) s)))"

definition ion_map_kernel :: "platform \<Rightarrow> addr \<Rightarrow> addr \<Rightarrow> ion_state \<Rightarrow> cptr \<times> ion_state" where
  "ion_map_kernel P client handle s =
     (if \<not> ion_handle_validate client handle s then (ERR_PTR (- EINVAL), s)
      else
        (let buffer = h_buffer (handle_mem s handle)
         in if \<not> heap_has_map_kernel (heap_mem s (b_heap (buffer_mem s buffer)))
            then (ERR_PTR (- ENODEV), s)
            else ion_handle_kmap_get P handle s))"

definition ion_unmap_kernel :: "addr \<Rightarrow> addr \<Rightarrow> ion_state \<Rightarrow> ion_state" where
  "ion_unmap_kernel client handle s = ion_handle_kmap_put handle s"

definition ion_sg_table :: "addr \<Rightarrow> addr \<Rightarrow> ion_state \<Rightarrow> cptr" where
  "ion_sg_table client handle s =
     (if \<not> ion_handle_validate client handle s then ERR_PTR (- EINVAL)
      else b_sg_table (buffer_mem s (h_buffer (handle_mem s handle))))"


section \<open>The export/import bridge\<close>

text \<open>
  Modelled from the spec: the dma-buf layer (\<open>dma_buf_export\<close>, \<open>dma_buf_fd\<close>,
  \<open>dma_buf_get\<close>, \<open>dma_buf_put\<close>) is kernel code outside ion.c. An export object
  wraps one buffer reference and is tagged with the exporter's operation set; its
  release, when the last file reference goes, is the exporter's \<open>release\<close> callback,
  which for ion is \<open>ion_dma_buf_release\<close>. A descriptor is a slot of the file table.
\<close>

definition ion_dma_buf_release :: "platform \<Rightarrow> addr \<Rightarrow> ion_state \<Rightarrow> ion_state" where
  "ion_dma_buf_release P dmabuf s = ion_buffer_put P (d_priv (dmabuf_mem s dmabuf)) s"

definition dma_buf_get :: "int \<Rightarrow> ion_state \<Rightarrow> cptr \<times> ion_state" where
  "dma_buf_get fd s =
     (case fd_table s fd of
        None \<Rightarrow> (ERR_PTR (- EBADF), s)
      | Some dmabuf \<Rightarrow>
          (PTR dmabuf, upd_dmabuf dmabuf (\<lambda>d. d\<lparr>d_file_count := d_file_count d + 1\<rparr>) s))"

definition dma_buf_put :: "platform \<Rightarrow> addr \<Rightarrow> ion_state \<Rightarrow> ion_state" where
  "dma_buf_put P dmabuf s =
     (let s1 = upd_dmabuf dmabuf (\<lambda>d. d\<lparr>d_file_count := d_file_count d - 1\<rparr>) s
      in if d_file_count (dmabuf_mem s1 dmabuf) = 0
         then (let s2 = (if d_ops_ion (dmabuf_mem s1 dmabuf) then ion_dma_buf_release P dmabuf s1
                         else s1)
               in s2\<lparr>live_dmabufs := live_dmabufs s2 - {dmabuf}\<rparr>)
         else s1)"

text \<open>Closing a descriptor drops the file reference it held.\<close>

definition close_fd :: "platform \<Rightarrow> int \<Rightarrow> ion_state \<Rightarrow> ion_state" where
  "close_fd P fd s =
     (case fd_table s fd of
        None \<Rightarrow> s
      | Some dmabuf \<Rightarrow> dma_buf_put P dmabuf (s\<lparr>fd_table := (fd_table s)(fd := None)\<rparr>))"

definition ion_share_dma_buf :: "platform \<Rightarrow> addr \<Rightarrow> addr \<Rightarrow> ion_state \<Rightarrow> cptr \<times> ion_state" where
  "ion_share_dma_buf P client handle s =
     (if \<not> ion_handle_validate client handle s
      then (ERR_PTR (- EINVAL), emit (Warn ''ion_share_dma_buf: invalid handle passed to share.'') s)
      else
        (let buffer = h_buffer (handle_mem s handle);
             s1 = ion_buffer_get buffer s;
             dmabuf = dma_buf_export P s1
         in if IS_ERR dmabuf then (dmabuf, ion_buffer_put P buffer s1)
            else
              (case dmabuf of
                 PTR d \<Rightarrow>
                   (dmabuf,
                    s1\<lparr>dmabuf_mem := (dmabuf_mem s1)
                          (d := \<lparr>d_priv = buffer, d_ops_ion = True, d_file_count = 1\<rparr>),
                       live_dmabufs := insert d (live_dmabufs s1)\<rparr>)
               | _ \<Rightarrow> (dmabuf, s1))))"

text \<open>\<open>dma_buf_fd\<close> refuses a dma_buf that is not an object with \<open>-EINVAL\<close>, and
  \<open>dma_buf_put\<close> of it does nothing.\<close>

definition ion_share_dma_buf_fd :: "platform \<Rightarrow> addr \<Rightarrow> addr \<Rightarrow> ion_state \<Rightarrow> int \<times> ion_state" where
  "ion_share_dma_buf_fd P client handle s =
     (case ion_share_dma_buf P client handle s of
        (dmabuf, s1) \<Rightarrow>
          if IS_ERR dmabuf then (PTR_ERR dmabuf, s1)
          else
            (case dmabuf of
               PTR d \<Rightarrow>
                 (let fd = dma_buf_fd P s1
                  in if fd < 0 then (fd, dma_buf_put P d s1)
                     else (fd, s1\<lparr>fd_table := (fd_table s1)(fd := Some d)\<rparr>))
             | _ \<Rightarrow> (- EINVAL, s1)))"

text \<open>\<open>ion_import_dma_buf\<close> starts with \<open>get_task_comm(client_name, client->task)\<close>,
  which dereferences the task: on a client without one the call does not return.\<close>

definition ion_import_dma_buf :: "platform \<Rightarrow> addr \<Rightarrow> int \<Rightarrow> ion_state \<Rightarrow> (cptr \<times> ion_state) option" where
  "ion_import_dma_buf P client fd s =
     (if c_task (client_mem s client) = None then None
      else
        (case dma_buf_get fd s of
           (dmabuf, s1) \<Rightarrow>
             if IS_ERR_OR_NULL dmabuf then Some (ERR_PTR (PTR_ERR dmabuf), s1)
             else
               (case dmabuf of
                  PTR d \<Rightarrow>
                    if \<not> d_ops_ion (dmabuf_mem s1 d)
                    then Some (ERR_PTR (- EINVAL), dma_buf_put P d s1)
                    else
                      (let buffer = d_priv (dmabuf_mem s1 d);
                           handle = ion_handle_lookup client buffer s1
                       in if \<not> IS_ERR_OR_NULL handle
                          then (case handle of
                                  PTR h \<Rightarrow> Some (handle, dma_buf_put P d (ion_handle_get h s1))
                                | _ \<Rightarrow> None)
                          else
                            (case ion_handle_create P client buffer s1 of
                               (handle', s2) \<Rightarrow>
                                 if IS_ERR_OR_NULL handle' then Some (handle', dma_buf_put P d s2)
                                 else
                                   (case handle' of
                                      PTR h \<Rightarrow>
                                        map_option (\<lambda>s3. (handle', dma_buf_put P d s3))
                                          (ion_handle_add client h s2)
                                    | _ \<Rightarrow> None)))
                | _ \<Rightarrow> None)))"

section \<open>Clients\<close>

text \<open>\<open>ion_client_create\<close>: the descent into the client tree has no exit for an address
  already there (\<open>None\<close>).\<close>

definition ion_client_create :: "platform \<Rightarrow> ion_state \<Rightarrow> (cptr \<times> ion_state) option" where
  "ion_client_create P s =
     (let pid = t_pid (current_task P s);
          task = (if current_is_kthread P s then None else Some (current_task P s))
      in case kzalloc P s of
           None \<Rightarrow> Some (ERR_PTR (- ENOMEM), s)
         | Some client \<Rightarrow>
             if client \<in> set (dev_clients s) then None
             else Some (PTR client,
                        s\<lparr>client_mem := (client_mem s)
                             (client := zero_client\<lparr>c_ref := (if CONFIG_ION_BCM P then 1 else 0),
                                                    c_task := task, c_pid := pid\<rparr>),
                          live_clients := insert client (live_clients s),
                          dev_clients := insort client (dev_clients s)\<rparr>))"

text \<open>The loops \<open>while ((n = rb_first(&client->handles)))\<close> of the two variants of
  client destruction.\<close>

partial_function (option) ion_client_put_handles :: "platform \<Rightarrow> addr \<Rightarrow> ion_state \<Rightarrow> ion_state option" where
  "ion_client_put_handles P client s =
     (case c_handles (client_mem s client) of
        [] \<Rightarrow> Some s
      | handle # rest \<Rightarrow> ion_client_put_handles P client (ion_handle_put P handle s))"

declare ion_client_put_handles.simps [code]

partial_function (option) ion_client_destroy_handles :: "platform \<Rightarrow> addr \<Rightarrow> ion_state \<Rightarrow> ion_state option" where
  "ion_client_destroy_handles P client s =
     (case c_handles (client_mem s client) of
        [] \<Rightarrow> Some s
      | handle # rest \<Rightarrow> ion_client_destroy_handles P client (ion_handle_destroy P handle s))"

declare ion_client_destroy_handles.simps [code]

definition underscore_ion_client_destroy :: "platform \<Rightarrow> addr \<Rightarrow> ion_state \<Rightarrow> ion_state option" where
  "underscore_ion_client_destroy P client s =
     map_option (kfree_client client)
       (ion_client_put_handles P client (s\<lparr>dev_clients := remove1 client (dev_clients s)\<rparr>))"

definition ion_client_put :: "platform \<Rightarrow> addr \<Rightarrow> ion_state \<Rightarrow> ion_state option" where
  "ion_client_put P client s =
     (let s1 = upd_client client (\<lambda>c. c\<lparr>c_ref := int32 (c_ref c - 1)\<rparr>) s
      in if c_ref (client_mem s1 client) = 0 then underscore_ion_client_destroy P client s1
         else Some s1)"

definition ion_client_destroy :: "platform \<Rightarrow> addr \<Rightarrow> ion_state \<Rightarrow> ion_state option" where
  "ion_client_destroy P client s =
     (if CONFIG_ION_BCM P then ion_client_put P client s
      else map_option (\<lambda>s1. kfree_client client (s1\<lparr>dev_clients := remove1 client (dev_clients s1)\<rparr>))
             (ion_client_destroy_handles P client s))"


section \<open>A concrete platform and device\<close>

text \<open>A back end that always succeeds, with the flag values and page size of the ARM
  build, \<open>PAGE_ALIGN\<close> rounding up in the 32-bit arithmetic of \<open>size_t\<close> and
  \<open>time_before_eq\<close> comparing by the sign of the 32-bit difference, as the kernel's
  macros do; and a device with one heap (id 0, no deferred free) and one client.\<close>

definition plat :: platform where
  "plat = \<lparr>CONFIG_ION_BCM = True, CONFIG_ION_OOM_KILLER = True,
     ION_FLAG_CACHED = 1, ION_FLAG_CACHED_NEEDS_SYNC = 2, ION_HEAP_FLAG_DEFER_FREE = 1,
     PAGE_SIZE = 4096, PAGE_ALIGN = (\<lambda>n. ((n + 4095) mod 2 ^ 32) div 4096 * 4096),
     ION_OOM_TIMEOUT_JIFFIES = 100,
     time_before_eq = (\<lambda>a b. int32 (int a - int b) \<le> 0),
     kzalloc = (\<lambda>s. Some (100 + length (trace s))), vmalloc = (\<lambda>s n. True),
     ops_allocate = (\<lambda>s heap buffer len align flags. 0),
     ops_map_dma = (\<lambda>s heap buffer. PTR 900),
     ops_map_kernel = (\<lambda>s heap buffer. PTR 800),
     ops_phys = (\<lambda>s heap buffer. 0),
     ops_lmk_shrink_info = (\<lambda>s heap. (0, 0)),
     dma_buf_export = (\<lambda>s. PTR 700), dma_buf_fd = (\<lambda>s. 3),
     current_task = (\<lambda>s. \<lparr>t_pid = 42, t_oom_score_adj = 0\<rparr>),
     current_is_kthread = (\<lambda>s. False), fatal_signal_pending = (\<lambda>s. False),
     msleep = (\<lambda>s. s)\<rparr>"

definition zero_heap :: ion_heap where
  "zero_heap = \<lparr>heap_id = 0, heap_flags = 0, heap_free_list = [], heap_used = 0,
     heap_has_phys = False, heap_has_map_kernel = False, heap_has_lmk_shrink_info = False\<rparr>"

definition boot :: ion_state where
  "boot = \<lparr>heap_mem = (\<lambda>a. zero_heap)(1 := zero_heap\<lparr>heap_has_map_kernel := True\<rparr>),
     buffer_mem = (\<lambda>a. zero_buffer), handle_mem = (\<lambda>a. zero_handle),
     client_mem = (\<lambda>a. zero_client)
        (2 := zero_client\<lparr>c_task := Some \<lparr>t_pid = 42, t_oom_score_adj = 0\<rparr>, c_pid := 42, c_ref := 1\<rparr>),
     dmabuf_mem = (\<lambda>a. \<lparr>d_priv = 0, d_ops_ion = False, d_file_count = 0\<rparr>),
     live_buffers = {}, live_handles = {}, live_clients = {2}, live_dmabufs = {},
     fd_table = (\<lambda>fd. None), dev_buffers = [], dev_heaps = [1], dev_clients = [2],
     oom_kill_count = 0, jiffies = 0, trace = []\<rparr>"


text \<open>The device \<open>boot\<close> with a second client, 3, holding handle 30 on buffer 10;
  and the same after client 3 has mapped the buffer into the kernel once.\<close>

definition boot_handle :: ion_state where
  "boot_handle = boot\<lparr>
     buffer_mem := (buffer_mem boot)
        (10 := zero_buffer\<lparr>b_ref := 1, b_heap := 1, b_size := 4096, b_sg_table := PTR 900,
                            b_handle_count := 1\<rparr>),
     handle_mem := (handle_mem boot)
        (30 := zero_handle\<lparr>h_ref := 1, h_client := 3, h_buffer := 10, h_linked := True\<rparr>),
     client_mem := (client_mem boot)
        (3 := zero_client\<lparr>c_handles := [30], c_task := Some \<lparr>t_pid = 43, t_oom_score_adj = 0\<rparr>,
                            c_pid := 43, c_ref := 1\<rparr>),
     live_buffers := {10}, live_handles := {30}, live_clients := {2, 3},
     dev_buffers := [10], dev_clients := [2, 3]\<rparr>"

definition boot_mapped :: ion_state where
  "boot_mapped = snd (ion_map_kernel plat 3 30 boot_handle)"

text \<open>Calls of a heap's \<open>allocate\<close> in a trace.\<close>

definition is_allocate :: "addr \<Rightarrow> event \<Rightarrow> bool" where
  "is_allocate heap e = (case e of Heap_allocate h b l a f \<Rightarrow> h = heap | _ \<Rightarrow> False)"

definition allocate_calls :: "addr \<Rightarrow> event list \<Rightarrow> nat" where
  "allocate_calls heap tr = length (filter (is_allocate heap) tr)"

text \<open>A back end whose \<open>allocate\<close> fails with \<open>-ENOMEM\<close> until it has been called once
  on the heap; and the device \<open>boot\<close> with its heap marked for deferred free, a live
  buffer 10 held by one reference, and a released buffer 20 waiting on the free list.\<close>

definition plat_fail_once :: platform where
  "plat_fail_once = plat\<lparr>ops_allocate :=
     (\<lambda>s heap buffer len align flags. if allocate_calls heap (trace s) = 0 then - ENOMEM else 0)\<rparr>"

definition boot_defer :: ion_state where
  "boot_defer = boot\<lparr>
     heap_mem := (heap_mem boot)(1 := zero_heap\<lparr>heap_flags := 1, heap_free_list := [20]\<rparr>),
     buffer_mem := (buffer_mem boot)
        (10 := zero_buffer\<lparr>b_ref := 1, b_heap := 1, b_size := 4096, b_sg_table := PTR 900\<rparr>,
         20 := zero_buffer\<lparr>b_heap := 1, b_size := 4096, b_sg_table := PTR 900\<rparr>),
     live_buffers := {10, 20}, dev_buffers := [10]\<rparr>"

section \<open>Two threads\<close>

text \<open>
  ion.c takes locks for parts of its calls only, so a second thread may run between two
  steps of a call. The steps that matter are written out here: the start of a tree walk,
  one turn of the loop of \<open>ion_debug_heap_total\<close>, and the first half of the
  destruction of a handle and of a client.
\<close>

text \<open>\<open>rb_first\<close> of a tree, which is the in-order list of its nodes.\<close>

definition rb_first :: "addr list \<Rightarrow> addr option" where
  "rb_first tree = (case tree of [] \<Rightarrow> None | n # rest \<Rightarrow> Some n)"

text \<open>The body of the loop of \<open>ion_debug_heap_total\<close>, at the handle the walk has
  reached.\<close>

definition ion_debug_heap_total_visit ::
  "addr \<Rightarrow> nat \<Rightarrow> ion_state \<Rightarrow> nat \<times> nat \<times> nat \<Rightarrow> (nat \<times> nat \<times> nat) option" where
  "ion_debug_heap_total_visit handle hid s acc =
     (case acc of
        (sz, shared, pss) \<Rightarrow>
          (let buffer = buffer_mem s (h_buffer (handle_mem s handle))
           in if heap_id (heap_mem s (b_heap buffer)) = hid
              then
                (if size_t_of_int (b_handle_count buffer) = 0 then None
                 else Some (size_t_add sz (b_size buffer),
                            (if b_handle_count buffer > 1 then size_t_add shared (b_size buffer)
                             else shared),
                            size_t_add pss (b_size buffer div size_t_of_int (b_handle_count buffer))))
              else Some (sz, shared, pss)))"

text \<open>\<open>ion_handle_destroy\<close> as far as the \<open>mutex_unlock\<close> that ends
  \<open>ion_buffer_remove_from_handle\<close>: the kernel mappings are dropped, the handle is out
  of its client's tree and off the buffer's \<open>handle_count\<close>; \<open>ion_buffer_put\<close> and
  \<open>kfree\<close> are still to come.\<close>

definition ion_handle_destroy_unlink :: "platform \<Rightarrow> addr \<Rightarrow> ion_state \<Rightarrow> ion_state" where
  "ion_handle_destroy_unlink P handle s =
     (let client = h_client (handle_mem s handle);
          buffer = h_buffer (handle_mem s handle);
          s1 = ion_handle_kmap_put_all handle s;
          s2 = (if h_linked (handle_mem s1 handle)
                then upd_client client (\<lambda>c. c\<lparr>c_handles := remove1 handle (c_handles c)\<rparr>) s1
                else s1)
      in ion_buffer_remove_from_handle P buffer s2)"

text \<open>\<open>ion_client_put\<close> as far as the \<open>up_write\<close> in \<open>_ion_client_destroy\<close>: the
  reference is dropped and the client is out of the device's tree; its handles are still
  to be put.\<close>

definition ion_client_put_erase :: "addr \<Rightarrow> ion_state \<Rightarrow> ion_state" where
  "ion_client_put_erase client s =
     (let s1 = upd_client client (\<lambda>c. c\<lparr>c_ref := int32 (c_ref c - 1)\<rparr>) s
      in s1\<lparr>dev_clients := remove1 client (dev_clients s1)\<rparr>)"

text \<open>The device \<open>boot\<close> after its client 2 has allocated one page from heap 1 (buffer
  100, handle 102); the same after a thread that closes the client has dropped the
  client's reference and erased it from the device; and after that thread has gone on
  to put handle 102 and is half way through its destruction.\<close>

definition boot_alloc :: ion_state where
  "boot_alloc = snd (the (ion_alloc plat 2 4096 0 1 0 boot))"

definition boot_closing :: ion_state where
  "boot_closing = ion_client_put_erase 2 boot_alloc"

definition boot_unlinked :: ion_state where
  "boot_unlinked =
     ion_handle_destroy_unlink plat 102
       (upd_handle 102 (\<lambda>h. h\<lparr>h_ref := int32 (h_ref h - 1)\<rparr>) boot_closing)"

text \<open>A kernel thread as the caller, and the device \<open>boot_handle\<close> after a kernel
  thread has created a client (at 100): the client has no task.\<close>

definition plat_kthread :: platform where
  "plat_kthread = plat\<lparr>current_is_kthread := (\<lambda>s. True)\<rparr>"

definition boot_kthread :: ion_state where
  "boot_kthread = snd (the (ion_client_create plat_kthread boot_handle))"


section \<open>Effects of teardown and of draining\<close>

lemmas upd_defs = emit_def upd_buffer_def upd_handle_def upd_heap_def upd_client_def
  upd_dmabuf_def kfree_buffer_def kfree_handle_def kfree_client_def

text \<open>A counter within the range of \<open>int\<close> is not changed by the wrap-around.\<close>

lemma int32_id: "- (2 ^ 31) \<le> i \<Longrightarrow> i < 2 ^ 31 \<Longrightarrow> int32 i = i"
  by (simp add: int32_def)

lemma int32_small [simp]: "int32 0 = 0" "int32 1 = 1" "int32 2 = 2" "int32 (- 1) = - 1"
  by (simp_all add: int32_def)

text \<open>What the synchronous teardown \<open>_ion_buffer_destroy\<close> asks of the heap for a
  buffer: the forced kernel unmap under a warning when mappings are outstanding, then
  unmap-DMA and heap free, then the release of the page array if there is one.\<close>

definition teardown_events :: "ion_state \<Rightarrow> addr \<Rightarrow> event list" where
  "teardown_events s buffer =
     (let heap = b_heap (buffer_mem s buffer)
      in (if b_kmap_cnt (buffer_mem s buffer) > 0
          then [Warn ''buffer->kmap_cnt > 0'', Heap_unmap_kernel heap buffer] else [])
         @ [Heap_unmap_dma heap buffer, Heap_free buffer]
         @ (if b_pages (buffer_mem s buffer) then [Vfree buffer] else []))"

lemma destroy_trace:
  "trace (underscore_ion_buffer_destroy P b s) = trace s @ teardown_events s b"
  by (simp add: underscore_ion_buffer_destroy_def teardown_events_def upd_defs Let_def)

lemma destroy_frame:
  "buffer_mem (underscore_ion_buffer_destroy P b s) = buffer_mem s"
  "live_buffers (underscore_ion_buffer_destroy P b s) = live_buffers s - {b}"
  "dev_buffers (underscore_ion_buffer_destroy P b s) = dev_buffers s"
  "heap_free_list (heap_mem (underscore_ion_buffer_destroy P b s) h) = heap_free_list (heap_mem s h)"
  "heap_flags (heap_mem (underscore_ion_buffer_destroy P b s) h) = heap_flags (heap_mem s h)"
  "handle_mem (underscore_ion_buffer_destroy P b s) = handle_mem s"
  "client_mem (underscore_ion_buffer_destroy P b s) = client_mem s"
  "live_handles (underscore_ion_buffer_destroy P b s) = live_handles s"
  by (simp_all add: underscore_ion_buffer_destroy_def upd_defs Let_def)

lemma drain_entries_free_list:
  "heap_free_list (heap_mem s heap) = xs \<Longrightarrow>
   heap_free_list (heap_mem (drain_entries P heap xs s) heap) = []"
proof (induction xs arbitrary: s)
  case Nil
  then show ?case by simp
next
  case (Cons b xs)
  show ?case
    by (simp, rule Cons.IH) (simp add: destroy_frame upd_defs Cons.prems)
qed

lemma teardown_events_cong:
  "buffer_mem s' = buffer_mem s \<Longrightarrow> teardown_events s' = teardown_events s"
  by (rule ext) (simp add: teardown_events_def)

lemma drain_entries_trace:
  "trace (drain_entries P heap xs s) = trace s @ concat (map (teardown_events s) xs)"
proof (induction xs arbitrary: s)
  case Nil
  then show ?case by simp
next
  case (Cons b xs)
  let ?s1 = "upd_heap heap (\<lambda>h. h\<lparr>heap_free_list := remove1 b (heap_free_list h)\<rparr>) s"
  have 1: "teardown_events (underscore_ion_buffer_destroy P b ?s1) = teardown_events s"
    by (rule teardown_events_cong) (simp add: destroy_frame upd_defs)
  have 2: "teardown_events ?s1 = teardown_events s"
    by (rule teardown_events_cong) (simp add: upd_defs)
  have 3: "trace ?s1 = trace s"
    by (simp add: upd_defs)
  show ?case
    by (simp only: drain_entries.simps Cons.IH destroy_trace 1 2 3) simp
qed

section \<open>Allocation: argument errors\<close>

text \<open>
  C8. For every heap mask, alignment and flags value, an allocation request of length
  zero fails with the invalid-argument condition \<open>-EINVAL\<close>; nothing but the warning
  of \<open>WARN_ON(!len)\<close> is left behind.
\<close>

theorem ion_alloc_zero_length_einval:
  "ion_alloc P client 0 align heap_id_mask flags s
     = Some (ERR_PTR (- EINVAL), emit (Warn ''!len'') s)"
  by (simp add: ion_alloc_def)

lemma ion_alloc_heaps_none_eligible:
  "\<forall>heap \<in> set heaps. \<not> (push_bit (heap_id (heap_mem s heap)) 1 AND heap_id_mask \<noteq> 0) \<Longrightarrow>
   ion_alloc_heaps P heaps len align heap_id_mask flags buffer hu s = Some (buffer, hu, s)"
  by (induction heaps) auto

text \<open>
  C2, as the code has it. A request of non-zero length whose mask names no registered
  heap leaves \<open>buffer\<close> at NULL, and \<open>ion_alloc\<close> returns \<open>-ENODEV\<close>, the no-device
  condition, with the state untouched: no buffer indexed, no handle created. (The
  status dump of the failure path has to get through its accounting.)
\<close>

theorem ion_alloc_no_registered_heap_enodev:
  assumes "\<forall>heap \<in> set (dev_heaps s).
             \<not> (push_bit (heap_id (heap_mem s heap)) 1 AND heap_id_mask \<noteq> 0)"
    and "len \<noteq> 0"
    and "ion_debug_print_heap_status s"
  shows "ion_alloc P client len align heap_id_mask flags s = Some (ERR_PTR (- ENODEV), s)"
  using assms
  by (simp add: ion_alloc_def ion_alloc_retry.simps ion_alloc_heaps_none_eligible
      ion_alloc_bcm_def ion_alloc_finish_def IS_ERR_OR_NULL_def ERR_PTR_def ENOMEM_def)

lemma boot_print_heap_status: "ion_debug_print_heap_status boot"
  by (simp add: boot_def ion_debug_print_heap_status_def ion_debug_print_per_heap_def
      ion_debug_heap_total_def zero_client_def)

theorem ion_alloc_no_registered_heap_enodev_witness:
  "dev_heaps boot = [1]
   \<and> \<not> (push_bit (heap_id (heap_mem boot 1)) 1 AND (2 :: 32 word) \<noteq> 0)
   \<and> ion_debug_print_heap_status boot
   \<and> ion_alloc plat 2 4096 0 2 0 boot = Some (ERR_PTR (- ENODEV), boot)"
proof -
  have heaps: "dev_heaps boot = [1]"
    by (simp add: boot_def)
  have skip: "\<not> (push_bit (heap_id (heap_mem boot 1)) 1 AND (2 :: 32 word) \<noteq> 0)"
    by (simp add: boot_def zero_heap_def)
  from heaps skip
  have "\<forall>heap \<in> set (dev_heaps boot).
          \<not> (push_bit (heap_id (heap_mem boot heap)) 1 AND (2 :: 32 word) \<noteq> 0)"
    by simp
  from ion_alloc_no_registered_heap_enodev [OF this _ boot_print_heap_status, of 4096 plat 2 0 0]
  have "ion_alloc plat 2 4096 0 2 0 boot = Some (ERR_PTR (- ENODEV), boot)"
    by simp
  with heaps skip boot_print_heap_status show ?thesis
    by simp
qed

text \<open>
  C2, as the spec words it, fails: on the device \<open>boot\<close>, whose only heap has id 0, a
  request for 4096 bytes with mask \<open>{1}\<close> returns \<open>-ENODEV\<close>, which is not the
  invalid-argument condition \<open>-EINVAL\<close>.
\<close>

theorem ion_alloc_no_registered_heap_not_einval:
  "dev_heaps boot = [1]
   \<and> \<not> (push_bit (heap_id (heap_mem boot 1)) 1 AND (2 :: 32 word) \<noteq> 0)
   \<and> map_option fst (ion_alloc plat 2 4096 0 2 0 boot) = Some (ERR_PTR (- ENODEV))
   \<and> map_option fst (ion_alloc plat 2 4096 0 2 0 boot) \<noteq> Some (ERR_PTR (- EINVAL))"
  by (simp add: ion_alloc_def ion_alloc_retry.simps plat_def boot_def ion_alloc_bcm_def
      ion_alloc_finish_def IS_ERR_OR_NULL_def ERR_PTR_def ENOMEM_def ENODEV_def EINVAL_def
      zero_heap_def ion_debug_print_heap_status_def ion_debug_print_per_heap_def
      ion_debug_heap_total_def zero_client_def)


section \<open>Buffer creation: failures after the heap has allocated\<close>

text \<open>
  C3 at a failing input. The back end allocates and DMA-maps, the buffer is cached
  without explicit sync (\<open>flags = ION_FLAG_CACHED\<close>), and \<open>vmalloc\<close> of the page array
  fails: \<open>goto err1\<close> skips the label \<open>err\<close>, so the record is freed and never indexed,
  but neither \<open>unmap_dma\<close> nor the heap's \<open>free\<close> is called.
\<close>

theorem ion_buffer_create_pages_failure_skips_heap_free:
  "map_option (\<lambda>(r, s'). (r, trace s', 100 \<in> live_buffers s', dev_buffers s'))
     (ion_buffer_create (plat\<lparr>vmalloc := (\<lambda>s n. False)\<rparr>) 1 4096 0 1 boot)
   = Some (ERR_PTR (- ENOMEM), [Heap_allocate 1 100 4096 0 1, Heap_map_dma 1 100], False, [])"
  by (simp add: ion_buffer_create_def ion_buffer_create_map_def ion_buffer_init_def
      ion_buffer_create_err1_def ion_buffer_create_err2_def ion_buffer_fault_user_mappings_def
      plat_def boot_def upd_defs zero_heap_def zero_buffer_def IS_ERR_OR_NULL_def Let_def)

text \<open>The other failure after a successful allocate, that of \<open>map_dma\<close>, does call the
  heap's \<open>free\<close> before the record is freed.\<close>

lemma ion_buffer_create_map_dma_failure_frees:
  assumes "IS_ERR_OR_NULL (ops_map_dma P (upd_buffer buffer (\<lambda>b. b\<lparr>b_size := len\<rparr>) s) heap buffer)"
  shows "\<exists>r s'. ion_buffer_create_map P heap buffer len ret s = Some (r, s')
           \<and> trace s' = trace s @ [Heap_map_dma heap buffer, Heap_free buffer]
           \<and> buffer \<notin> live_buffers s' \<and> dev_buffers s' = dev_buffers s"
  using assms by (simp add: ion_buffer_create_map_def Let_def upd_defs)


section \<open>Allocation: one retry on a heap with deferred free\<close>

lemma teardown_events_no_allocate: "filter (is_allocate heap) (teardown_events s b) = []"
  by (simp add: teardown_events_def is_allocate_def Let_def)

lemma drained_no_allocate:
  "filter (is_allocate heap) (concat (map (teardown_events s) xs)) = []"
  by (induction xs) (simp_all add: teardown_events_no_allocate)

lemma drain_entries_frame:
  "dev_buffers (drain_entries P heap xs s) = dev_buffers s"
  "buffer_mem (drain_entries P heap xs s) = buffer_mem s"
  "heap_flags (heap_mem (drain_entries P heap xs s) h) = heap_flags (heap_mem s h)"
  by (induction xs arbitrary: s) (simp_all add: destroy_frame upd_defs)

lemma ion_heap_drain_freelist_result:
  "\<exists>drained s'. ion_heap_drain_freelist P heap s = Some (drained, s')
     \<and> heap_free_list (heap_mem s' heap) = []
     \<and> trace s' = trace s @ concat (map (teardown_events s) (heap_free_list (heap_mem s heap)))
     \<and> dev_buffers s' = dev_buffers s \<and> buffer_mem s' = buffer_mem s"
  by (auto simp add: ion_heap_drain_freelist_def ion_heap_free_list_is_empty_def Let_def
      drain_entries_free_list drain_entries_trace drain_entries_frame)

lemma ion_buffer_create_map_result:
  assumes "b \<notin> set (dev_buffers s)"
  shows "\<exists>r s' tail. ion_buffer_create_map P heap b len ret s = Some (r, s')
     \<and> trace s' = trace s @ Heap_map_dma heap b # tail \<and> filter (is_allocate h) tail = []
     \<and> heap_mem s' = heap_mem s"
  using assms
  by (simp add: ion_buffer_create_map_def Let_def ion_buffer_add_def ion_buffer_create_err_def
      ion_buffer_create_err1_def ion_buffer_create_err2_def upd_defs is_allocate_def)

lemma ion_buffer_create_retry_core:
  assumes kz: "kzalloc P s = Some b"
    and fail: "ops_allocate P (ion_buffer_init heap flags b s) heap b len align flags \<noteq> 0"
    and fresh: "b \<notin> set (dev_buffers s)"
  shows "\<exists>r s'. ion_buffer_create P heap len align flags s = Some (r, s') \<and>
     (if heap_flags (heap_mem s heap) AND ION_HEAP_FLAG_DEFER_FREE P \<noteq> 0
      then allocate_calls heap (trace s') = allocate_calls heap (trace s) + 2
         \<and> heap_free_list (heap_mem s' heap) = []
         \<and> (\<exists>tail. trace s' = trace s @ Heap_allocate heap b len align flags
                 # concat (map (teardown_events (ion_buffer_init heap flags b s))
                              (heap_free_list (heap_mem s heap)))
                 @ Heap_allocate heap b len align flags # tail
               \<and> filter (is_allocate heap) tail = [])
      else allocate_calls heap (trace s') = allocate_calls heap (trace s) + 1
         \<and> r = ERR_PTR (ops_allocate P (ion_buffer_init heap flags b s) heap b len align flags)
         \<and> trace s' = trace s @ [Heap_allocate heap b len align flags])"
proof (cases "heap_flags (heap_mem s heap) AND ION_HEAP_FLAG_DEFER_FREE P \<noteq> 0")
  case False
  with kz fail show ?thesis
    by (simp add: ion_buffer_create_def Let_def ion_buffer_init_def ion_buffer_create_err2_def
        upd_defs allocate_calls_def is_allocate_def)
next
  case True
  let ?s1 = "ion_buffer_init heap flags b s"
  let ?A = "Heap_allocate heap b len align flags"
  let ?s2 = "emit ?A ?s1"
  obtain drained s3 where dr: "ion_heap_drain_freelist P heap ?s2 = Some (drained, s3)"
    and fl: "heap_free_list (heap_mem s3 heap) = []"
    and tr3: "trace s3 = trace ?s2 @ concat (map (teardown_events ?s2) (heap_free_list (heap_mem ?s2 heap)))"
    and db3: "dev_buffers s3 = dev_buffers ?s2"
    using ion_heap_drain_freelist_result [of P heap ?s2] by blast
  have te: "teardown_events ?s2 = teardown_events ?s1"
    by (rule teardown_events_cong) (simp add: upd_defs)
  have hm: "heap_mem ?s2 = heap_mem s" "trace ?s2 = trace s @ [?A]" "dev_buffers ?s2 = dev_buffers s"
    by (simp_all add: upd_defs ion_buffer_init_def)
  let ?D = "concat (map (teardown_events ?s1) (heap_free_list (heap_mem s heap)))"
  have tr3': "trace s3 = trace s @ ?A # ?D"
    using tr3 by (simp add: te hm)
  let ?s4 = "emit ?A s3"
  have tr4: "trace ?s4 = trace s @ ?A # ?D @ [?A]"
    using tr3' by (simp add: upd_defs)
  have fl4: "heap_free_list (heap_mem ?s4 heap) = []"
    using fl by (simp add: upd_defs)
  have cnt: "allocate_calls heap (trace s @ ?A # ?D @ ?A # tail) = allocate_calls heap (trace s) + 2"
    if "filter (is_allocate heap) tail = []" for tail
    using that by (simp add: allocate_calls_def drained_no_allocate) (simp add: is_allocate_def)
  have unf: "ion_buffer_create P heap len align flags s =
      (let ret = ops_allocate P s3 heap b len align flags
       in if ret \<noteq> 0 then Some (ion_buffer_create_err2 b ret ?s4)
          else ion_buffer_create_map P heap b len ret ?s4)"
    using kz fail True dr by (simp add: ion_buffer_create_def Let_def hm)
  show ?thesis
  proof (cases "ops_allocate P s3 heap b len align flags \<noteq> 0")
    case True
    then have "ion_buffer_create P heap len align flags s
        = Some (ERR_PTR (ops_allocate P s3 heap b len align flags), kfree_buffer b ?s4)"
      by (simp add: unf ion_buffer_create_err2_def)
    moreover have "trace (kfree_buffer b ?s4) = trace s @ ?A # ?D @ ?A # []"
      using tr4 by (simp add: upd_defs)
    moreover have "heap_free_list (heap_mem (kfree_buffer b ?s4) heap) = []"
      using fl4 by (simp add: upd_defs)
    ultimately show ?thesis
      using \<open>heap_flags (heap_mem s heap) AND ION_HEAP_FLAG_DEFER_FREE P \<noteq> 0\<close> cnt [of "[]"]
      by simp
  next
    case False
    have "b \<notin> set (dev_buffers ?s4)"
      using fresh db3 by (simp add: upd_defs hm ion_buffer_init_def)
    from ion_buffer_create_map_result [OF this, of P heap len 0 heap]
    obtain r s' tail where
      m: "ion_buffer_create_map P heap b len 0 ?s4 = Some (r, s')"
      and t: "trace s' = trace ?s4 @ Heap_map_dma heap b # tail"
      and na: "filter (is_allocate heap) tail = []"
      and h: "heap_mem s' = heap_mem ?s4"
      by blast
    have na': "filter (is_allocate heap) (Heap_map_dma heap b # tail) = []"
      using na by (simp add: is_allocate_def)
    have "ion_buffer_create P heap len align flags s = Some (r, s')"
      using False m by (simp add: unf)
    moreover have "trace s' = trace s @ ?A # ?D @ ?A # (Heap_map_dma heap b # tail)"
      using t tr4 by simp
    moreover have "heap_free_list (heap_mem s' heap) = []"
      using fl4 h by simp
    ultimately show ?thesis
      using \<open>heap_flags (heap_mem s heap) AND ION_HEAP_FLAG_DEFER_FREE P \<noteq> 0\<close>
        cnt [OF na'] na'
      by (simp del: filter.simps)
  qed
qed


text \<open>
  C7. When the heap's \<open>allocate\<close> fails on the freshly made record: a heap without the
  deferred-free flag is not tried again (one call, and the error is returned); on a heap
  with the flag the free list is drained on the spot, every queued buffer torn down,
  and \<open>allocate\<close> is called once more, so exactly twice, the drain between the two calls.
  All of this is one call of \<open>ion_buffer_create\<close>, and the traversal goes on to the
  next heap only from the state that call returned.
\<close>

theorem ion_buffer_create_retries_once_after_drain:
  assumes kz: "kzalloc P s = Some b"
    and fail: "ops_allocate P (ion_buffer_init heap flags b s) heap b len align flags \<noteq> 0"
    and fresh: "b \<notin> set (dev_buffers s)"
  shows "\<exists>r s'. ion_buffer_create P heap len align flags s = Some (r, s') \<and>
     (if heap_flags (heap_mem s heap) AND ION_HEAP_FLAG_DEFER_FREE P \<noteq> 0
      then allocate_calls heap (trace s') = allocate_calls heap (trace s) + 2
         \<and> heap_free_list (heap_mem s' heap) = []
         \<and> (\<exists>tail. trace s' = trace s @ Heap_allocate heap b len align flags
                 # concat (map (teardown_events (ion_buffer_init heap flags b s))
                              (heap_free_list (heap_mem s heap)))
                 @ Heap_allocate heap b len align flags # tail
               \<and> filter (is_allocate heap) tail = [])
      else allocate_calls heap (trace s') = allocate_calls heap (trace s) + 1
         \<and> r = ERR_PTR (ops_allocate P (ion_buffer_init heap flags b s) heap b len align flags)
         \<and> trace s' = trace s @ [Heap_allocate heap b len align flags])
     \<and> (push_bit (heap_id (heap_mem s heap)) 1 AND heap_id_mask \<noteq> 0 \<and> IS_ERR_OR_NULL r \<longrightarrow>
          ion_alloc_heaps P (heap # rest) len align heap_id_mask flags buffer hu s
            = ion_alloc_heaps P rest len align heap_id_mask flags r (Some heap) s')"
proof -
  from ion_buffer_create_retry_core [OF kz fail fresh]
  obtain r s' where c: "ion_buffer_create P heap len align flags s = Some (r, s')"
    and rest: "if heap_flags (heap_mem s heap) AND ION_HEAP_FLAG_DEFER_FREE P \<noteq> 0
      then allocate_calls heap (trace s') = allocate_calls heap (trace s) + 2
         \<and> heap_free_list (heap_mem s' heap) = []
         \<and> (\<exists>tail. trace s' = trace s @ Heap_allocate heap b len align flags
                 # concat (map (teardown_events (ion_buffer_init heap flags b s))
                              (heap_free_list (heap_mem s heap)))
                 @ Heap_allocate heap b len align flags # tail
               \<and> filter (is_allocate heap) tail = [])
      else allocate_calls heap (trace s') = allocate_calls heap (trace s) + 1
         \<and> r = ERR_PTR (ops_allocate P (ion_buffer_init heap flags b s) heap b len align flags)
         \<and> trace s' = trace s @ [Heap_allocate heap b len align flags]"
    by blast
  have "push_bit (heap_id (heap_mem s heap)) 1 AND heap_id_mask \<noteq> 0 \<and> IS_ERR_OR_NULL r \<longrightarrow>
          ion_alloc_heaps P (heap # rest) len align heap_id_mask flags buffer hu s
            = ion_alloc_heaps P rest len align heap_id_mask flags r (Some heap) s'"
    by (simp add: c)
  with c rest show ?thesis
    by blast
qed

theorem ion_buffer_create_retries_once_after_drain_witness:
  "kzalloc plat_fail_once boot_defer = Some 100
   \<and> ops_allocate plat_fail_once (ion_buffer_init 1 0 100 boot_defer) 1 100 4096 0 0 \<noteq> 0
   \<and> 100 \<notin> set (dev_buffers boot_defer)
   \<and> heap_flags (heap_mem boot_defer 1) AND ION_HEAP_FLAG_DEFER_FREE plat_fail_once \<noteq> 0
   \<and> (\<exists>r s'. ion_buffer_create plat_fail_once 1 4096 0 0 boot_defer = Some (r, s')
        \<and> allocate_calls 1 (trace s') = 2 \<and> heap_free_list (heap_mem s' 1) = [])"
proof -
  have kz: "kzalloc plat_fail_once boot_defer = Some 100"
    by (simp add: plat_fail_once_def plat_def boot_defer_def boot_def)
  have fail: "ops_allocate plat_fail_once (ion_buffer_init 1 0 100 boot_defer) 1 100 4096 0 0 \<noteq> 0"
    by (simp add: plat_fail_once_def plat_def boot_defer_def boot_def ion_buffer_init_def
        allocate_calls_def ENOMEM_def)
  have fresh: "100 \<notin> set (dev_buffers boot_defer)"
    by (simp add: boot_defer_def boot_def)
  have flag: "heap_flags (heap_mem boot_defer 1) AND ION_HEAP_FLAG_DEFER_FREE plat_fail_once \<noteq> 0"
    by (simp add: plat_fail_once_def plat_def boot_defer_def boot_def zero_heap_def)
  have zero: "allocate_calls 1 (trace boot_defer) = 0"
    by (simp add: boot_defer_def boot_def allocate_calls_def)
  have flag': "(heap_flags (heap_mem boot_defer 1) AND ION_HEAP_FLAG_DEFER_FREE plat_fail_once \<noteq> 0) = True"
    using flag by simp
  have "\<exists>r s'. ion_buffer_create plat_fail_once 1 4096 0 0 boot_defer = Some (r, s')
        \<and> allocate_calls 1 (trace s') = allocate_calls 1 (trace boot_defer) + 2
        \<and> heap_free_list (heap_mem s' 1) = []"
    using ion_buffer_create_retries_once_after_drain [OF kz fail fresh,
        where heap_id_mask = 0 and rest = "[]" and buffer = NULL and hu = None]
    unfolding flag' if_True by blast
  then have "\<exists>r s'. ion_buffer_create plat_fail_once 1 4096 0 0 boot_defer = Some (r, s')
        \<and> allocate_calls 1 (trace s') = 2 \<and> heap_free_list (heap_mem s' 1) = []"
    unfolding zero by (simp add: numeral_2_eq_2)
  with kz fail fresh flag show ?thesis
    by blast
qed

section \<open>Release of the last buffer reference\<close>

text \<open>
  C4. \<open>ion_buffer_put\<close> on the last reference erases the buffer from the device's
  index. On a heap with the deferred-free flag the buffer goes to the head of the heap's
  free list and the worker is woken; nothing of the teardown has happened and the record
  is still allocated, and the worker's next turn does the teardown (forced kernel unmap
  if mappings were left, unmap-DMA, heap free, release of the page array) and frees the
  record. On any other heap the same teardown runs inside the call.
\<close>

theorem ion_buffer_put_last_reference:
  assumes "b_ref (buffer_mem s b) = 1"
  shows "let heap = b_heap (buffer_mem s b); s' = ion_buffer_put P b s in
     dev_buffers s' = remove1 b (dev_buffers s) \<and>
     (if heap_flags (heap_mem s heap) AND ION_HEAP_FLAG_DEFER_FREE P \<noteq> 0
      then heap_free_list (heap_mem s' heap) = b # heap_free_list (heap_mem s heap)
         \<and> trace s' = trace s @ [Wake_up heap]
         \<and> live_buffers s' = live_buffers s
         \<and> (let s'' = ion_heap_deferred_free_step P heap s' in
              trace s'' = trace s' @ teardown_events s b
            \<and> live_buffers s'' = live_buffers s - {b}
            \<and> heap_free_list (heap_mem s'' heap) = heap_free_list (heap_mem s heap))
      else trace s' = trace s @ teardown_events s b
         \<and> live_buffers s' = live_buffers s - {b})"
proof -
  let ?heap = "b_heap (buffer_mem s b)"
  let ?s1 = "upd_buffer b (\<lambda>b. b\<lparr>b_ref := int32 (b_ref b - 1)\<rparr>) s"
  have put: "ion_buffer_put P b s = ion_buffer_destroy P b ?s1"
    using assms by (simp add: ion_buffer_put_def Let_def upd_defs)
  have te: "teardown_events s' b = teardown_events s b"
    if "buffer_mem s' b = (buffer_mem s b)\<lparr>b_ref := 0\<rparr>" for s'
    using that by (simp add: teardown_events_def)
  show ?thesis
  proof (cases "heap_flags (heap_mem s ?heap) AND ION_HEAP_FLAG_DEFER_FREE P \<noteq> 0")
    case True
    let ?s' = "ion_buffer_put P b s"
    have s': "?s' = emit (Wake_up ?heap)
                (upd_heap ?heap (\<lambda>h. h\<lparr>heap_free_list := b # heap_free_list h\<rparr>)
                   (?s1\<lparr>dev_buffers := remove1 b (dev_buffers ?s1)\<rparr>))"
      using True by (simp add: put ion_buffer_destroy_def Let_def upd_defs)
    have step: "ion_heap_deferred_free_step P ?heap ?s' =
        underscore_ion_buffer_destroy P b
          (upd_heap ?heap (\<lambda>h. h\<lparr>heap_free_list := heap_free_list (heap_mem s ?heap)\<rparr>) ?s')"
      by (simp add: ion_heap_deferred_free_step_def s' upd_defs)
    have "teardown_events (upd_heap ?heap (\<lambda>h. h\<lparr>heap_free_list := heap_free_list (heap_mem s ?heap)\<rparr>) ?s') b
            = teardown_events s b"
      using assms by (intro te) (simp add: s' upd_defs)
    then show ?thesis
      using True
      by (simp add: Let_def step destroy_trace destroy_frame) (simp add: s' upd_defs)
  next
    case False
    let ?s2 = "?s1\<lparr>dev_buffers := remove1 b (dev_buffers ?s1)\<rparr>"
    have s': "ion_buffer_put P b s = underscore_ion_buffer_destroy P b ?s2"
      using False by (simp add: put ion_buffer_destroy_def Let_def upd_defs)
    have "teardown_events ?s2 b = teardown_events s b"
      using assms by (intro te) (simp add: upd_defs)
    then show ?thesis
      using False by (simp add: Let_def s' destroy_trace destroy_frame) (simp add: upd_defs)
  qed
qed


theorem ion_buffer_put_last_reference_witness:
  "b_ref (buffer_mem boot_defer 10) = 1
   \<and> dev_buffers (ion_buffer_put plat 10 boot_defer) = []
   \<and> heap_free_list (heap_mem (ion_buffer_put plat 10 boot_defer) 1) = [10, 20]
   \<and> trace (ion_buffer_put plat 10 boot_defer) = [Wake_up 1]
   \<and> live_buffers (ion_buffer_put plat 10 boot_defer) = {10, 20}
   \<and> trace (ion_heap_deferred_free_step plat 1 (ion_buffer_put plat 10 boot_defer))
        = [Wake_up 1, Heap_unmap_dma 1 10, Heap_free 10]
   \<and> live_buffers (ion_heap_deferred_free_step plat 1 (ion_buffer_put plat 10 boot_defer)) = {20}"
proof -
  have ref: "b_ref (buffer_mem boot_defer 10) = 1"
    by (simp add: boot_defer_def boot_def zero_buffer_def)
  have facts: "b_heap (buffer_mem boot_defer 10) = 1"
    "(heap_flags (heap_mem boot_defer 1) AND ION_HEAP_FLAG_DEFER_FREE plat \<noteq> 0) = True"
    "dev_buffers boot_defer = [10]" "heap_free_list (heap_mem boot_defer 1) = [20]"
    "trace boot_defer = []" "live_buffers boot_defer = {10, 20}"
    "teardown_events boot_defer 10 = [Heap_unmap_dma 1 10, Heap_free 10]"
    by (simp_all add: boot_defer_def boot_def zero_buffer_def zero_heap_def plat_def
        teardown_events_def)
  from ion_buffer_put_last_reference [OF ref, of plat] ref show ?thesis
    unfolding Let_def facts if_True by simp
qed


section \<open>Kernel mappings\<close>

lemmas kmap_defs = ion_map_kernel_def ion_unmap_kernel_def ion_handle_kmap_get_def
  ion_buffer_kmap_get_def ion_handle_kmap_put_def ion_buffer_kmap_put_def
  ion_handle_validate_def IS_ERR_OR_NULL_def


lemmas fixture_defs = plat_def boot_def boot_handle_def zero_heap_def zero_buffer_def
  zero_handle_def zero_client_def

text \<open>
  C5. On a validated handle with no mapping yet, of a buffer with no mapping yet, on a
  heap that maps into the kernel and does so successfully: the first \<open>ion_map_kernel\<close>
  calls the heap's \<open>map_kernel\<close> and returns its non-null address; the second returns
  the same address from the cache, calls nothing, and raises the handle's count to 2
  (the buffer's stays 1); the first \<open>ion_unmap_kernel\<close> unmaps nothing, the second
  brings the buffer's count to zero and calls the heap's \<open>unmap_kernel\<close>; a third
  \<open>ion_map_kernel\<close> calls the heap's \<open>map_kernel\<close> again.
\<close>

theorem ion_map_kernel_two_level_counting:
  assumes valid: "ion_handle_validate client handle s"
    and buffer: "buffer = h_buffer (handle_mem s handle)"
    and heap: "heap = b_heap (buffer_mem s buffer)"
    and hk: "h_kmap_cnt (handle_mem s handle) = 0"
    and bk: "b_kmap_cnt (buffer_mem s buffer) = 0"
    and has: "heap_has_map_kernel (heap_mem s heap)"
    and ok: "ops_map_kernel P s heap buffer = PTR va"
  shows "let (v1, s1) = ion_map_kernel P client handle s;
             (v2, s2) = ion_map_kernel P client handle s1;
             s3 = ion_unmap_kernel client handle s2;
             s4 = ion_unmap_kernel client handle s3;
             (v5, s5) = ion_map_kernel P client handle s4
         in v1 = PTR va \<and> v1 \<noteq> NULL
          \<and> trace s1 = trace s @ [Heap_map_kernel heap buffer]
          \<and> h_kmap_cnt (handle_mem s1 handle) = 1 \<and> b_kmap_cnt (buffer_mem s1 buffer) = 1
          \<and> v2 = v1 \<and> trace s2 = trace s1
          \<and> h_kmap_cnt (handle_mem s2 handle) = 2 \<and> b_kmap_cnt (buffer_mem s2 buffer) = 1
          \<and> trace s3 = trace s2
          \<and> h_kmap_cnt (handle_mem s3 handle) = 1 \<and> b_kmap_cnt (buffer_mem s3 buffer) = 1
          \<and> trace s4 = trace s3 @ [Heap_unmap_kernel heap buffer]
          \<and> h_kmap_cnt (handle_mem s4 handle) = 0 \<and> b_kmap_cnt (buffer_mem s4 buffer) = 0
          \<and> b_vaddr (buffer_mem s4 buffer) = NULL
          \<and> v5 = ops_map_kernel P s4 heap buffer
          \<and> trace s5 = trace s4 @ [Heap_map_kernel heap buffer]"
  using assms
  by (simp add: kmap_defs upd_defs Let_def)


theorem ion_map_kernel_two_level_counting_witness:
  "ion_handle_validate 3 30 boot_handle
   \<and> h_buffer (handle_mem boot_handle 30) = 10
   \<and> h_kmap_cnt (handle_mem boot_handle 30) = 0
   \<and> b_kmap_cnt (buffer_mem boot_handle 10) = 0
   \<and> heap_has_map_kernel (heap_mem boot_handle 1)
   \<and> fst (ion_map_kernel plat 3 30 boot_handle) = PTR 800
   \<and> fst (ion_map_kernel plat 3 30 (snd (ion_map_kernel plat 3 30 boot_handle))) = PTR 800
   \<and> trace (snd (ion_map_kernel plat 3 30 (snd (ion_map_kernel plat 3 30 boot_handle))))
        = [Heap_map_kernel 1 10]"
proof -
  have valid: "ion_handle_validate 3 30 boot_handle"
    by (simp add: ion_handle_validate_def fixture_defs)
  have buffer: "10 = h_buffer (handle_mem boot_handle 30)"
    by (simp add: fixture_defs)
  have heap: "1 = b_heap (buffer_mem boot_handle 10)"
    by (simp add: fixture_defs)
  have hk: "h_kmap_cnt (handle_mem boot_handle 30) = 0"
    by (simp add: fixture_defs)
  have bk: "b_kmap_cnt (buffer_mem boot_handle 10) = 0"
    by (simp add: fixture_defs)
  have has: "heap_has_map_kernel (heap_mem boot_handle 1)"
    by (simp add: fixture_defs)
  have ok: "ops_map_kernel plat boot_handle 1 10 = PTR 800"
    by (simp add: plat_def)
  have tr: "trace boot_handle = []"
    by (simp add: fixture_defs)
  from ion_map_kernel_two_level_counting [OF valid buffer heap hk bk has ok]
  have "fst (ion_map_kernel plat 3 30 boot_handle) = PTR 800
   \<and> fst (ion_map_kernel plat 3 30 (snd (ion_map_kernel plat 3 30 boot_handle))) = PTR 800
   \<and> trace (snd (ion_map_kernel plat 3 30 (snd (ion_map_kernel plat 3 30 boot_handle))))
        = [Heap_map_kernel 1 10]"
    unfolding Let_def case_prod_beta tr by simp
  with valid buffer hk bk has show ?thesis
    by simp
qed

text \<open>
  C9. \<open>ion_unmap_kernel\<close> on a validated handle whose count is zero is not refused and
  reports nothing: the handle's 32-bit count wraps to \<open>2^32 - 1\<close>, which is the only
  change, so the heap's \<open>unmap_kernel\<close> is not called. The bookkeeping is then off: the
  next \<open>ion_map_kernel\<close> finds a non-zero count, returns whatever address the buffer
  has cached without calling the heap, and leaves the count at zero.
\<close>

theorem ion_unmap_kernel_unbalanced_wraps:
  assumes valid: "ion_handle_validate client handle s"
    and hk: "h_kmap_cnt (handle_mem s handle) = 0"
  shows "let s' = ion_unmap_kernel client handle s;
             (v, s'') = ion_map_kernel P client handle s'
         in unat (h_kmap_cnt (handle_mem s' handle)) = 2 ^ 32 - 1
          \<and> s' = upd_handle handle (\<lambda>h. h\<lparr>h_kmap_cnt := - 1\<rparr>) s
          \<and> trace s' = trace s \<and> buffer_mem s' = buffer_mem s
          \<and> (heap_has_map_kernel (heap_mem s (b_heap (buffer_mem s (h_buffer (handle_mem s handle))))) \<longrightarrow>
               v = b_vaddr (buffer_mem s (h_buffer (handle_mem s handle)))
             \<and> trace s'' = trace s
             \<and> h_kmap_cnt (handle_mem s'' handle) = 0)"
  using assms
  by (simp add: kmap_defs upd_defs Let_def unsigned_minus_1_eq_mask mask_eq_exp_minus_1)


theorem ion_unmap_kernel_unbalanced_wraps_witness:
  "ion_handle_validate 3 30 boot_handle
   \<and> h_kmap_cnt (handle_mem boot_handle 30) = 0
   \<and> unat (h_kmap_cnt (handle_mem (ion_unmap_kernel 3 30 boot_handle) 30)) = 2 ^ 32 - 1
   \<and> trace (ion_unmap_kernel 3 30 boot_handle) = []
   \<and> fst (ion_map_kernel plat 3 30 (ion_unmap_kernel 3 30 boot_handle)) = NULL"
proof -
  have valid: "ion_handle_validate 3 30 boot_handle"
    by (simp add: ion_handle_validate_def fixture_defs)
  have hk: "h_kmap_cnt (handle_mem boot_handle 30) = 0"
    by (simp add: fixture_defs)
  have facts: "trace boot_handle = []" "h_buffer (handle_mem boot_handle 30) = 10"
    "b_heap (buffer_mem boot_handle 10) = 1" "heap_has_map_kernel (heap_mem boot_handle 1) = True"
    "b_vaddr (buffer_mem boot_handle 10) = NULL"
    by (simp_all add: fixture_defs)
  from ion_unmap_kernel_unbalanced_wraps [OF valid hk, of plat]
  have "unat (h_kmap_cnt (handle_mem (ion_unmap_kernel 3 30 boot_handle) 30)) = 2 ^ 32 - 1
   \<and> trace (ion_unmap_kernel 3 30 boot_handle) = []
   \<and> fst (ion_map_kernel plat 3 30 (ion_unmap_kernel 3 30 boot_handle)) = NULL"
    unfolding Let_def case_prod_beta facts by blast
  with valid hk show ?thesis
    by blast
qed

section \<open>Handle validation\<close>

text \<open>Five of the six operations that take a handle look it up in the client's tree
  first and touch nothing when it is not there.\<close>

lemma validated_operations_refuse_unknown_handle:
  assumes "\<not> ion_handle_validate client handle s"
  shows "ion_phys P client handle s = (- EINVAL, s)"
    and "ion_map_kernel P client handle s = (ERR_PTR (- EINVAL), s)"
    and "ion_sg_table client handle s = ERR_PTR (- EINVAL)"
    and "ion_share_dma_buf P client handle s
           = (ERR_PTR (- EINVAL), emit (Warn ''ion_share_dma_buf: invalid handle passed to share.'') s)"
    and "client = h_client (handle_mem s handle) \<Longrightarrow>
         ion_free P client handle s
           = Some (emit (Warn ''ion_free: invalid handle passed to free.'') s)"
  using assms
  by (simp_all add: ion_phys_def ion_map_kernel_def ion_sg_table_def ion_share_dma_buf_def
      ion_free_def)

text \<open>
  C1 at a failing input. \<open>ion_unmap_kernel\<close> does not look the handle up. Client 2
  holds no handle; handle 30 is client 3's, mapped once. \<open>ion_unmap_kernel\<close> called
  by client 2 on handle 30 reads the handle's buffer, drops the mapping count of both
  and has the heap unmap the buffer: client 3's mapping is gone.
\<close>

theorem ion_unmap_kernel_skips_validation:
  "\<not> ion_handle_validate 2 30 boot_mapped
   \<and> h_kmap_cnt (handle_mem boot_mapped 30) = 1
   \<and> b_vaddr (buffer_mem boot_mapped 10) = PTR 800
   \<and> h_kmap_cnt (handle_mem (ion_unmap_kernel 2 30 boot_mapped) 30) = 0
   \<and> b_vaddr (buffer_mem (ion_unmap_kernel 2 30 boot_mapped) 10) = NULL
   \<and> trace (ion_unmap_kernel 2 30 boot_mapped)
        = trace boot_mapped @ [Heap_unmap_kernel 1 10]"
  by (simp add: boot_mapped_def kmap_defs upd_defs fixture_defs Let_def)

section \<open>The sharing round trip\<close>

lemma IS_ERR_PTR_ERR_negative: "IS_ERR p \<Longrightarrow> PTR_ERR p < 0"
  by (cases p) simp_all

lemma ion_share_dma_buf_fd_success:
  assumes "ion_share_dma_buf_fd P c1 h s = (fd, s1)" and "0 \<le> fd"
  shows "\<exists>d. fd_table s1 fd = Some d \<and> d_priv (dmabuf_mem s1 d) = h_buffer (handle_mem s h)
     \<and> d_ops_ion (dmabuf_mem s1 d) \<and> d_file_count (dmabuf_mem s1 d) = 1
     \<and> handle_mem s1 = handle_mem s \<and> client_mem s1 = client_mem s
     \<and> live_handles s1 = live_handles s \<and> ion_handle_validate c1 h s"
  using assms
  by (auto simp add: ion_share_dma_buf_fd_def ion_share_dma_buf_def Let_def ion_buffer_get_def
      upd_defs EINVAL_def ERR_PTR_def MAX_ERRNO_def dest: IS_ERR_PTR_ERR_negative
      split: if_splits cptr.splits prod.splits)

lemma find_handle_Some:
  assumes "h' \<in> set hs" and "h_buffer (m h') = b"
  shows "\<exists>h2. find (\<lambda>handle. h_buffer (m handle) = b) hs = Some h2 \<and> h2 \<in> set hs \<and> h_buffer (m h2) = b"
  using assms by (induction hs) auto


text \<open>
  The round trip for an importing client that has an owning task. A descriptor that
  \<open>ion_share_dma_buf_fd\<close> returned for a handle is imported. If the client holds no
  handle on the buffer, and memory for one is to be had, the import returns a new handle,
  indexed in the client, whose buffer is the buffer of the exported handle. If the client
  holds a handle on the buffer, the import returns a handle of the client's tree on that
  buffer after \<open>kref_get\<close> on it; the tree and the set of allocated handles are as
  before.
\<close>

lemma ion_share_import_round_trip_with_task:
  assumes share: "ion_share_dma_buf_fd P c1 h s = (fd, s1)" and fd: "0 \<le> fd"
    and task: "c_task (client_mem s1 c2) \<noteq> None"
  shows "((\<forall>h' \<in> set (c_handles (client_mem s1 c2)).
             h_buffer (handle_mem s1 h') \<noteq> h_buffer (handle_mem s h))
          \<and> kzalloc P (snd (dma_buf_get fd s1)) = Some hn
          \<and> hn \<notin> set (c_handles (client_mem s1 c2)) \<longrightarrow>
          (\<exists>s2. ion_import_dma_buf P c2 fd s1 = Some (PTR hn, s2)
             \<and> h_buffer (handle_mem s2 hn) = h_buffer (handle_mem s h)
             \<and> ion_handle_validate c2 hn s2))
       \<and> ((\<exists>h' \<in> set (c_handles (client_mem s1 c2)).
             h_buffer (handle_mem s1 h') = h_buffer (handle_mem s h)) \<longrightarrow>
          (\<exists>h2 s2. ion_import_dma_buf P c2 fd s1 = Some (PTR h2, s2)
             \<and> h2 \<in> set (c_handles (client_mem s1 c2))
             \<and> h_buffer (handle_mem s2 h2) = h_buffer (handle_mem s h)
             \<and> h_ref (handle_mem s2 h2) = int32 (h_ref (handle_mem s1 h2) + 1)
             \<and> c_handles (client_mem s2 c2) = c_handles (client_mem s1 c2)
             \<and> live_handles s2 = live_handles s1))"
proof -
  from ion_share_dma_buf_fd_success [OF share fd]
  obtain d where d: "fd_table s1 fd = Some d"
    and priv: "d_priv (dmabuf_mem s1 d) = h_buffer (handle_mem s h)"
    and ops: "d_ops_ion (dmabuf_mem s1 d)" and cnt: "d_file_count (dmabuf_mem s1 d) = 1"
    by blast
  let ?b = "h_buffer (handle_mem s h)"
  let ?g = "upd_dmabuf d (\<lambda>d. d\<lparr>d_file_count := d_file_count d + 1\<rparr>) s1"
  have get: "dma_buf_get fd s1 = (PTR d, ?g)"
    by (simp add: dma_buf_get_def d)
  have put: "dma_buf_put P d t = upd_dmabuf d (\<lambda>d. d\<lparr>d_file_count := d_file_count d - 1\<rparr>) t"
    if "d_file_count (dmabuf_mem t d) = 2" for t
    using that by (simp add: dma_buf_put_def Let_def upd_defs)
  have part1: "\<exists>s2. ion_import_dma_buf P c2 fd s1 = Some (PTR hn, s2)
             \<and> h_buffer (handle_mem s2 hn) = ?b \<and> ion_handle_validate c2 hn s2"
    if no: "\<forall>h' \<in> set (c_handles (client_mem s1 c2)). h_buffer (handle_mem s1 h') \<noteq> ?b"
      and kz: "kzalloc P (snd (dma_buf_get fd s1)) = Some hn"
      and fresh: "hn \<notin> set (c_handles (client_mem s1 c2))"
  proof -
    have look: "ion_handle_lookup c2 ?b ?g = NULL"
      using no by (simp add: ion_handle_lookup_def upd_defs find_None_iff split: option.splits)
    have kz': "kzalloc P ?g = Some hn"
      using kz by (simp add: get)
    obtain s2 where cr: "ion_handle_create P c2 ?b ?g = (PTR hn, s2)"
      and hb: "h_buffer (handle_mem s2 hn) = ?b"
      and ch: "client_mem s2 = client_mem s1"
      and dc: "d_file_count (dmabuf_mem s2 d) = 2"
      using kz' cnt
      by (simp add: ion_handle_create_def Let_def ion_buffer_get_def ion_buffer_add_to_handle_def
          upd_defs)
    let ?s3 = "upd_handle hn (\<lambda>h. h\<lparr>h_linked := True\<rparr>)
                 (upd_client c2 (\<lambda>c. c\<lparr>c_handles := insort hn (c_handles c)\<rparr>) s2)"
    have add: "ion_handle_add c2 hn s2 = Some ?s3"
      using fresh ch by (simp add: ion_handle_add_def)
    have dc3: "d_file_count (dmabuf_mem ?s3 d) = 2"
      using dc by (simp add: upd_defs)
    have "ion_import_dma_buf P c2 fd s1 = Some (PTR hn, dma_buf_put P d ?s3)"
      using task ops priv look cr add
      by (simp add: ion_import_dma_buf_def get IS_ERR_OR_NULL_def upd_defs)
    moreover have "h_buffer (handle_mem (dma_buf_put P d ?s3) hn) = ?b"
      using hb unfolding put [OF dc3] by (simp add: upd_defs)
    moreover have "ion_handle_validate c2 hn (dma_buf_put P d ?s3)"
      unfolding put [OF dc3] by (simp add: upd_defs ion_handle_validate_def set_insort_key)
    ultimately show ?thesis
      by blast
  qed
  have part2: "\<exists>h2 s2. ion_import_dma_buf P c2 fd s1 = Some (PTR h2, s2)
             \<and> h2 \<in> set (c_handles (client_mem s1 c2))
             \<and> h_buffer (handle_mem s2 h2) = ?b
             \<and> h_ref (handle_mem s2 h2) = int32 (h_ref (handle_mem s1 h2) + 1)
             \<and> c_handles (client_mem s2 c2) = c_handles (client_mem s1 c2)
             \<and> live_handles s2 = live_handles s1"
    if ex: "\<exists>h' \<in> set (c_handles (client_mem s1 c2)). h_buffer (handle_mem s1 h') = ?b"
  proof -
    from ex find_handle_Some [of _ "c_handles (client_mem s1 c2)" "handle_mem s1" ?b]
    obtain h2 where f: "find (\<lambda>handle. h_buffer (handle_mem s1 handle) = ?b)
                          (c_handles (client_mem s1 c2)) = Some h2"
      and h2: "h2 \<in> set (c_handles (client_mem s1 c2))" "h_buffer (handle_mem s1 h2) = ?b"
      by blast
    have look: "ion_handle_lookup c2 ?b ?g = PTR h2"
      using f by (simp add: ion_handle_lookup_def upd_defs)
    let ?s2 = "ion_handle_get h2 ?g"
    have dc: "d_file_count (dmabuf_mem ?s2 d) = 2"
      using cnt by (simp add: ion_handle_get_def upd_defs)
    have "ion_import_dma_buf P c2 fd s1 = Some (PTR h2, dma_buf_put P d ?s2)"
      using task ops priv look
      by (simp add: ion_import_dma_buf_def get IS_ERR_OR_NULL_def upd_defs)
    moreover have "h_buffer (handle_mem (dma_buf_put P d ?s2) h2) = ?b"
      using h2 unfolding put [OF dc] by (simp add: ion_handle_get_def upd_defs)
    moreover have "h_ref (handle_mem (dma_buf_put P d ?s2) h2) = int32 (h_ref (handle_mem s1 h2) + 1)"
      "c_handles (client_mem (dma_buf_put P d ?s2) c2) = c_handles (client_mem s1 c2)"
      "live_handles (dma_buf_put P d ?s2) = live_handles s1"
      unfolding put [OF dc] by (simp_all add: ion_handle_get_def upd_defs)
    ultimately show ?thesis
      using h2 by blast
  qed
  from part1 part2 show ?thesis
    by blast
qed


lemma boot_handle_shared:
  "fst (ion_share_dma_buf_fd plat 3 30 boot_handle) = 3"
  "c_task (client_mem (snd (ion_share_dma_buf_fd plat 3 30 boot_handle)) 2) \<noteq> None"
  "c_handles (client_mem (snd (ion_share_dma_buf_fd plat 3 30 boot_handle)) 2) = []"
  "kzalloc plat (snd (dma_buf_get 3 (snd (ion_share_dma_buf_fd plat 3 30 boot_handle)))) = Some 100"
  "h_buffer (handle_mem boot_handle 30) = 10"
  by (simp_all add: ion_share_dma_buf_fd_def ion_share_dma_buf_def ion_handle_validate_def
      ion_buffer_get_def dma_buf_get_def upd_defs fixture_defs Let_def)

lemma ion_share_import_round_trip_boot:
  "fst (ion_share_dma_buf_fd plat 3 30 boot_handle) = 3
   \<and> c_task (client_mem (snd (ion_share_dma_buf_fd plat 3 30 boot_handle)) 2) \<noteq> None
   \<and> c_handles (client_mem (snd (ion_share_dma_buf_fd plat 3 30 boot_handle)) 2) = []
   \<and> (\<exists>s2. ion_import_dma_buf plat 2 3 (snd (ion_share_dma_buf_fd plat 3 30 boot_handle))
              = Some (PTR 100, s2)
         \<and> h_buffer (handle_mem s2 100) = 10 \<and> ion_handle_validate 2 100 s2)"
proof -
  let ?s1 = "snd (ion_share_dma_buf_fd plat 3 30 boot_handle)"
  have share: "ion_share_dma_buf_fd plat 3 30 boot_handle = (3, ?s1)"
    using boot_handle_shared(1) by (simp add: prod_eq_iff)
  have fd: "(0 :: int) \<le> 3"
    by simp
  from ion_share_import_round_trip_with_task [OF share fd boot_handle_shared(2), where hn = 100]
  have "\<exists>s2. ion_import_dma_buf plat 2 3 ?s1 = Some (PTR 100, s2)
         \<and> h_buffer (handle_mem s2 100) = 10 \<and> ion_handle_validate 2 100 s2"
    unfolding boot_handle_shared by simp
  with boot_handle_shared show ?thesis
    by simp
qed


section \<open>Import by a client without a task\<close>

lemmas alloc_defs = ion_alloc_def ion_alloc_retry.simps ion_alloc_bcm_def ion_alloc_finish_def
  ion_buffer_create_def ion_buffer_init_def ion_buffer_create_map_def ion_buffer_add_def
  ion_buffer_fault_user_mappings_def ion_handle_create_def ion_handle_add_def ion_buffer_get_def
  ion_buffer_put_def ion_buffer_add_to_handle_def IS_ERR_OR_NULL_def ERR_PTR_def upd_defs
  Let_def

lemma ion_import_dma_buf_null_task:
  "c_task (client_mem s client) = None \<Longrightarrow> ion_import_dma_buf P client fd s = None"
  by (simp add: ion_import_dma_buf_def)

lemma boot_kthread_created:
  "map_option fst (ion_client_create plat_kthread boot_handle) = Some (PTR 100)"
  by (simp add: ion_client_create_def plat_kthread_def fixture_defs Let_def)

lemma boot_kthread_state:
  "c_task (client_mem boot_kthread 100) = None"
  "c_handles (client_mem boot_kthread 100) = []"
  "dev_clients boot_kthread = [2, 3, 100]"
  "c_handles (client_mem boot_kthread 3) = [30]"
  "trace boot_kthread = []"
  unfolding boot_kthread_def
  by (simp_all add: ion_client_create_def plat_kthread_def fixture_defs Let_def)

lemma boot_kthread_shared:
  "fst (ion_share_dma_buf_fd plat 3 30 boot_kthread) = 3"
  "c_task (client_mem (snd (ion_share_dma_buf_fd plat 3 30 boot_kthread)) 100) = None"
  "fd_table (snd (ion_share_dma_buf_fd plat 3 30 boot_kthread)) 3 = Some 700"
  unfolding boot_kthread_def
  by (simp_all add: ion_share_dma_buf_fd_def ion_share_dma_buf_def ion_handle_validate_def
      ion_buffer_get_def ion_client_create_def plat_kthread_def upd_defs fixture_defs Let_def)

lemma boot_kthread_alloc:
  "map_option fst (ion_alloc plat_kthread 100 4096 0 1 0 boot_kthread) = Some (PTR 102)"
  unfolding boot_kthread_def
  by (simp add: alloc_defs ion_client_create_def plat_kthread_def fixture_defs)

text \<open>
  C6 at a failing input. \<open>ion_client_create\<close> called by a kernel thread stores no task
  in the client. \<open>ion_alloc\<close> tests \<open>client->task\<close> before it reads it, and returns a
  handle to this client; \<open>ion_import_dma_buf\<close> starts with
  \<open>get_task_comm(client_name, client->task)\<close> and \<open>task_pid_nr(client->task)\<close> without
  the test. Client 3 shares its handle 30 and gets descriptor 3; the import of that
  descriptor by the kernel thread's client dereferences the null task and does not
  return, so no handle on the shared buffer is handed out.
\<close>

theorem ion_import_dma_buf_kthread_client_does_not_return:
  "map_option fst (ion_client_create plat_kthread boot_handle) = Some (PTR 100)
   \<and> c_task (client_mem boot_kthread 100) = None
   \<and> map_option fst (ion_alloc plat_kthread 100 4096 0 1 0 boot_kthread) = Some (PTR 102)
   \<and> fst (ion_share_dma_buf_fd plat 3 30 boot_kthread) = 3
   \<and> fd_table (snd (ion_share_dma_buf_fd plat 3 30 boot_kthread)) 3 = Some 700
   \<and> ion_import_dma_buf plat_kthread 100 3 (snd (ion_share_dma_buf_fd plat 3 30 boot_kthread)) = None"
  by (simp add: boot_kthread_created boot_kthread_state boot_kthread_alloc boot_kthread_shared
      ion_import_dma_buf_null_task)


section \<open>Usage accounting while a client is destroyed\<close>

lemma boot_alloc_returns:
  "map_option fst (ion_alloc plat 2 4096 0 1 0 boot) = Some (PTR 102)"
  by (simp add: alloc_defs fixture_defs)

lemma boot_alloc_state:
  "c_handles (client_mem boot_alloc 2) = [102]"
  "dev_clients boot_alloc = [2]"
  "handle_mem boot_alloc 102
     = \<lparr>h_ref = 1, h_client = 2, h_buffer = 100, h_linked = True, h_kmap_cnt = 0\<rparr>"
  "b_handle_count (buffer_mem boot_alloc 100) = 1"
  "b_ref (buffer_mem boot_alloc 100) = 1"
  "b_heap (buffer_mem boot_alloc 100) = 1"
  "b_size (buffer_mem boot_alloc 100) = 4096"
  "heap_id (heap_mem boot_alloc 1) = 0"
  "heap_id (heap_mem boot_alloc (Suc 0)) = 0"
  "c_ref (client_mem boot_alloc 2) = 1"
  "live_handles boot_alloc = {102}"
  "live_buffers boot_alloc = {100}"
  unfolding boot_alloc_def
  by (simp_all add: alloc_defs fixture_defs)

text \<open>The steps written out for two threads are the steps of the calls: the loop of
  \<open>ion_debug_heap_total\<close> runs the body handle by handle, \<open>ion_handle_put\<close> on the
  last reference goes through \<open>ion_handle_destroy_unlink\<close>, and the destruction of a
  client with one reference goes through \<open>ion_client_put_erase\<close> and then puts the
  first handle of the tree.\<close>

lemma ion_debug_heap_total_loop_visit:
  "ion_debug_heap_total_loop (handle # rest) hid s acc =
     (case ion_debug_heap_total_visit handle hid s acc of
        None \<Rightarrow> None
      | Some acc' \<Rightarrow> ion_debug_heap_total_loop rest hid s acc')"
  by (cases acc) (simp add: ion_debug_heap_total_visit_def Let_def)

lemma ion_handle_put_unlink:
  "ion_handle_put P handle s =
     (let s1 = upd_handle handle (\<lambda>h. h\<lparr>h_ref := int32 (h_ref h - 1)\<rparr>) s
      in if h_ref (handle_mem s1 handle) = 0
         then kfree_handle handle
                (ion_buffer_put P (h_buffer (handle_mem s1 handle))
                   (ion_handle_destroy_unlink P handle s1))
         else s1)"
  by (simp add: ion_handle_put_def ion_handle_destroy_def ion_handle_destroy_unlink_def Let_def)

lemma ion_client_put_handles_first:
  "rb_first (c_handles (client_mem s client)) = Some handle \<Longrightarrow>
   ion_client_put_handles P client s = ion_client_put_handles P client (ion_handle_put P handle s)"
  by (subst ion_client_put_handles.simps) (simp add: rb_first_def split: list.splits)

lemma ion_client_destroy_erase:
  assumes "CONFIG_ION_BCM P" and "c_ref (client_mem s client) = 1"
  shows "ion_client_destroy P client s =
     map_option (kfree_client client)
       (ion_client_put_handles P client (ion_client_put_erase client s))"
  using assms
  by (simp add: ion_client_destroy_def ion_client_put_def underscore_ion_client_destroy_def
      ion_client_put_erase_def Let_def upd_defs)

lemma boot_closing_state:
  "c_ref (client_mem boot_closing 2) = 0"
  "dev_clients boot_closing = []"
  "c_handles (client_mem boot_closing 2) = [102]"
  "h_ref (handle_mem boot_closing 102) = 1"
  unfolding boot_closing_def
  by (simp_all add: ion_client_put_erase_def Let_def upd_defs boot_alloc_state)

lemma boot_unlinked_state:
  "c_handles (client_mem boot_unlinked 2) = []"
  "h_buffer (handle_mem boot_unlinked 102) = 100"
  "b_handle_count (buffer_mem boot_unlinked 100) = 0"
  "b_heap (buffer_mem boot_unlinked 100) = 1"
  "heap_id (heap_mem boot_unlinked 1) = 0"
  "heap_id (heap_mem boot_unlinked (Suc 0)) = 0"
  "102 \<in> live_handles boot_unlinked"
  "100 \<in> live_buffers boot_unlinked"
  unfolding boot_unlinked_def boot_closing_def
  by (simp_all add: ion_handle_destroy_unlink_def ion_handle_kmap_put_all.simps
      ion_buffer_remove_from_handle_def ion_client_put_erase_def Let_def upd_defs boot_alloc_state)

text \<open>
  C10 at a failing schedule. Client 2 of the device \<open>boot\<close> has allocated a page: its
  tree holds handle 102 on buffer 100, whose \<open>handle_count\<close> is 1, and
  \<open>ion_debug_heap_total\<close> run on its own returns. Now a reader (of a heap's debugfs
  file, or the reclaim scan or status dump inside another \<open>ion_alloc\<close>) walks the
  device's clients, which takes no lock, reaches client 2, enters
  \<open>ion_debug_heap_total\<close>, takes \<open>client->lock\<close> and gets handle 102 from
  \<open>rb_first\<close>. A second thread closes client 2: \<open>ion_client_put\<close> drops the last
  reference and erases the client, and \<open>_ion_client_destroy\<close> puts handle 102 without
  taking \<open>client->lock\<close>; \<open>ion_handle_destroy\<close> erases the handle from the tree and
  \<open>ion_buffer_remove_from_handle\<close> brings \<open>handle_count\<close> to 0. The handle and the
  buffer are still allocated when the reader goes on with the body of its loop at handle
  102: it divides the buffer's size by a \<open>handle_count\<close> of zero.
\<close>

theorem ion_debug_heap_total_divides_by_zero_during_client_destroy:
  "map_option fst (ion_alloc plat 2 4096 0 1 0 boot) = Some (PTR 102)
   \<and> ion_debug_heap_total 2 0 boot_alloc = Some (4096, 0, 4096)
   \<and> rb_first (dev_clients boot_alloc) = Some 2
   \<and> rb_first (c_handles (client_mem boot_alloc 2)) = Some 102
   \<and> h_buffer (handle_mem boot_alloc 102) = 100
   \<and> b_handle_count (buffer_mem boot_alloc 100) = 1
   \<and> boot_closing = ion_client_put_erase 2 boot_alloc
   \<and> c_ref (client_mem boot_closing 2) = 0
   \<and> rb_first (c_handles (client_mem boot_closing 2)) = Some 102
   \<and> boot_unlinked = ion_handle_destroy_unlink plat 102
        (upd_handle 102 (\<lambda>h. h\<lparr>h_ref := int32 (h_ref h - 1)\<rparr>) boot_closing)
   \<and> h_ref (handle_mem boot_closing 102) - 1 = 0
   \<and> 102 \<in> live_handles boot_unlinked
   \<and> h_buffer (handle_mem boot_unlinked 102) = 100
   \<and> 100 \<in> live_buffers boot_unlinked
   \<and> b_handle_count (buffer_mem boot_unlinked 100) = 0
   \<and> ion_debug_heap_total_visit 102 0 boot_unlinked (0, 0, 0) = None"
proof -
  have "ion_debug_heap_total 2 0 boot_alloc = Some (4096, 0, 4096)"
    by (simp add: ion_debug_heap_total_def boot_alloc_state size_t_of_int_def size_t_add_def
        Let_def)
  moreover have "ion_debug_heap_total_visit 102 0 boot_unlinked (0, 0, 0) = None"
    by (simp add: ion_debug_heap_total_visit_def boot_unlinked_state size_t_of_int_def Let_def)
  ultimately show ?thesis
    by (simp add: boot_alloc_returns boot_alloc_state boot_closing_state boot_unlinked_state
        rb_first_def boot_closing_def [symmetric] boot_unlinked_def [symmetric])
qed

end
